theory Spec2Isabelle
  imports Complex_Main "HOL-Library.Sublist" "HOL-Library.Multiset"
begin

section \<open>Strings\<close>

text \<open>
  JavaScript strings are modelled as \<open>string\<close>. \<open>String.prototype.toLowerCase\<close> is
  modelled on the ASCII letters (every name, category and query of the repository's data
  is ASCII); other characters are left as they are.
\<close>

definition toLowerChar :: "char \<Rightarrow> char" where
  "toLowerChar c =
     (let n = (of_char c :: nat) in if 65 \<le> n \<and> n \<le> 90 then char_of (n + 32) else c)"

definition toLowerCase :: "string \<Rightarrow> string" where
  "toLowerCase s = map toLowerChar s"

text \<open>\<open>s.startsWith(q)\<close> and \<open>s.includes(q)\<close> (named \<open>js_includes\<close> here): \<open>q\<close> occurs in \<open>s\<close> at some position.\<close>

fun startsWith :: "string \<Rightarrow> string \<Rightarrow> bool" where
  "startsWith s [] = True"
| "startsWith [] (q # qs) = False"
| "startsWith (c # cs) (q # qs) = (c = q \<and> startsWith cs qs)"

fun js_includes :: "string \<Rightarrow> string \<Rightarrow> bool" where
  "js_includes [] q = (q = [])"
| "js_includes (c # cs) q = (startsWith (c # cs) q \<or> js_includes cs q)"

section \<open>Data model (services/db/local-db.service.ts)\<close>

record Signal =
  sig_id :: string
  asset :: string
  sig_type :: string
  strength :: real
  timestamp :: int

record Project =
  proj_id :: string
  proj_name :: string
  proj_category :: string
  score :: real
  change :: real

record DefiProtocol =
  defi_id :: string
  defi_name :: string
  defi_category :: string
  tvl :: real
  defi_volume_24h :: real
  defi_change_24h :: real
  users :: real
  defi_url :: string
  defi_twitter :: string
  github :: string

record NftCollection =
  nft_id :: string
  nft_name :: string
  nft_category :: string
  floor_price :: real
  nft_volume_24h :: real
  volume_7d :: real
  nft_change_24h :: real
  holders :: real
  nft_url :: string
  nft_twitter :: string


section \<open>The local data service (services/db/local-db.service.ts)\<close>

text \<open>
  The service returns fixed records. \<open>getRecentSignals\<close> stamps them with the current
  time \<open>now\<close> (milliseconds) minus 0, 30, 60, 90 and 120 minutes; \<open>slice(0, limit)\<close>
  is \<open>take limit\<close>.
\<close>

definition getRecentSignals :: "int \<Rightarrow> nat \<Rightarrow> Signal list" where
  "getRecentSignals now limit = take limit
     [\<lparr>sig_id = ''1'', asset = ''BTC'', sig_type = ''trend'', strength = 85, timestamp = now\<rparr>,
      \<lparr>sig_id = ''2'', asset = ''ETH'', sig_type = ''momentum'', strength = 72,
        timestamp = now - 1000 * 60 * 30\<rparr>,
      \<lparr>sig_id = ''3'', asset = ''SOL'', sig_type = ''reversal'', strength = 65,
        timestamp = now - 1000 * 60 * 60\<rparr>,
      \<lparr>sig_id = ''4'', asset = ''ADA'', sig_type = ''trend'', strength = 90,
        timestamp = now - 1000 * 60 * 90\<rparr>,
      \<lparr>sig_id = ''5'', asset = ''DOT'', sig_type = ''momentum'', strength = 78,
        timestamp = now - 1000 * 60 * 120\<rparr>]"

definition getHotProjects :: "nat \<Rightarrow> Project list" where
  "getHotProjects limit = take limit
     [\<lparr>proj_id = ''1'', proj_name = ''Solana'', proj_category = ''Layer 1'', score = 92, change = 8.5\<rparr>,
      \<lparr>proj_id = ''2'', proj_name = ''Serum'', proj_category = ''DEX'', score = 88, change = 5.2\<rparr>,
      \<lparr>proj_id = ''3'', proj_name = ''Raydium'', proj_category = ''AMM'', score = 85, change = 3.7\<rparr>,
      \<lparr>proj_id = ''4'', proj_name = ''Marinade Finance'', proj_category = ''Staking'', score = 82,
        change = 2.1\<rparr>,
      \<lparr>proj_id = ''5'', proj_name = ''Star Atlas'', proj_category = ''GameFi'', score = 79,
        change = 10.3\<rparr>]"

definition getDefiProtocols :: "DefiProtocol list" where
  "getDefiProtocols =
     [\<lparr>defi_id = ''1'', defi_name = ''Raydium'', defi_category = ''AMM'', tvl = 450000000,
        defi_volume_24h = 120000000, defi_change_24h = 5.2, users = 150000,
        defi_url = ''https://raydium.io'', defi_twitter = ''https://twitter.com/RaydiumProtocol'',
        github = ''https://github.com/raydium-io''\<rparr>,
      \<lparr>defi_id = ''2'', defi_name = ''Marinade Finance'', defi_category = ''Staking'',
        tvl = 890000000, defi_volume_24h = 25000000, defi_change_24h = 2.1, users = 200000,
        defi_url = ''https://marinade.finance'',
        defi_twitter = ''https://twitter.com/marinadefinance'',
        github = ''https://github.com/marinade-finance''\<rparr>,
      \<lparr>defi_id = ''3'', defi_name = ''Serum'', defi_category = ''DEX'', tvl = 320000000,
        defi_volume_24h = 85000000, defi_change_24h = - 1.3, users = 120000,
        defi_url = ''https://projectserum.com'', defi_twitter = ''https://twitter.com/projectserum'',
        github = ''https://github.com/project-serum''\<rparr>,
      \<lparr>defi_id = ''4'', defi_name = ''Jupiter'', defi_category = ''Aggregator'', tvl = 150000000,
        defi_volume_24h = 250000000, defi_change_24h = 8.7, users = 300000,
        defi_url = ''https://jup.ag'', defi_twitter = ''https://twitter.com/jup_aggregator'',
        github = ''https://github.com/jup-ag''\<rparr>,
      \<lparr>defi_id = ''5'', defi_name = ''Solana Name Service'', defi_category = ''DNS'',
        tvl = 85000000, defi_volume_24h = 5000000, defi_change_24h = 1.5, users = 500000,
        defi_url = ''https://solana.com'', defi_twitter = ''https://twitter.com/solananameservice'',
        github = ''https://github.com/solana-labs''\<rparr>]"

definition getTopNftCollections :: "NftCollection list" where
  "getTopNftCollections =
     [\<lparr>nft_id = ''1'', nft_name = ''Degenerate Ape Academy'', nft_category = ''Avatar'',
        floor_price = 18.5, nft_volume_24h = 12000000, volume_7d = 55000000,
        nft_change_24h = 3.2, holders = 8500, nft_url = ''https://degenerateape.academy'',
        nft_twitter = ''https://twitter.com/DegenApeAcademy''\<rparr>,
      \<lparr>nft_id = ''2'', nft_name = ''Solana Monkey Business'', nft_category = ''Avatar'',
        floor_price = 22.0, nft_volume_24h = 9500000, volume_7d = 42000000,
        nft_change_24h = - 1.5, holders = 7200, nft_url = ''https://solanamonkey.business'',
        nft_twitter = ''https://twitter.com/SolanaMonkeys''\<rparr>,
      \<lparr>nft_id = ''3'', nft_name = ''Okay Bears'', nft_category = ''Avatar'',
        floor_price = 15.2, nft_volume_24h = 7800000, volume_7d = 35000000,
        nft_change_24h = 2.8, holders = 9100, nft_url = ''https://okaybears.com'',
        nft_twitter = ''https://twitter.com/OkayBearsNFT''\<rparr>,
      \<lparr>nft_id = ''4'', nft_name = ''Mad Lads'', nft_category = ''Avatar'',
        floor_price = 8.7, nft_volume_24h = 5200000, volume_7d = 22000000,
        nft_change_24h = 1.2, holders = 12000, nft_url = ''https://madlads.io'',
        nft_twitter = ''https://twitter.com/MadLadsNFT''\<rparr>,
      \<lparr>nft_id = ''5'', nft_name = ''Goblins'', nft_category = ''Avatar'',
        floor_price = 4.5, nft_volume_24h = 3100000, volume_7d = 14000000,
        nft_change_24h = - 0.8, holders = 15000, nft_url = ''https://goblins.io'',
        nft_twitter = ''https://twitter.com/GoblinsNFT''\<rparr>]"

section \<open>Filters of the Solana views\<close>

text \<open>
  \<open>filteredCollections\<close> (SolanaNftView.vue) and \<open>filteredProtocols\<close>
  (SolanaDefiView.vue): \<open>Array.prototype.filter\<close> with the conjunction of the text
  match and the category match. \<open>!selectedCategory\<close> holds exactly for the empty string.
\<close>

definition filteredCollections :: "NftCollection list \<Rightarrow> string \<Rightarrow> string \<Rightarrow> NftCollection list" where
  "filteredCollections top_collections searchTerm selectedCategory =
     filter (\<lambda>collection.
        let matchesSearch = js_includes (toLowerCase (nft_name collection)) (toLowerCase searchTerm);
            matchesCategory = (selectedCategory = [] \<or> nft_category collection = selectedCategory)
        in matchesSearch \<and> matchesCategory) top_collections"

definition filteredProtocols :: "DefiProtocol list \<Rightarrow> string \<Rightarrow> string \<Rightarrow> DefiProtocol list" where
  "filteredProtocols protocols searchTerm selectedCategory =
     filter (\<lambda>protocol.
        let matchesSearch = js_includes (toLowerCase (defi_name protocol)) (toLowerCase searchTerm);
            matchesCategory = (selectedCategory = [] \<or> defi_category protocol = selectedCategory)
        in matchesSearch \<and> matchesCategory) protocols"


text \<open>
  \<open>filteredSignals\<close> (signal history view). JavaScript arrays are objects: the view
  copies \<open>signals.value\<close> with a spread, \<open>filter\<close> allocates a new array each time, and
  \<open>sort\<close> reorders the array it is called on in place. The store below holds the array
  objects; a reference is an index into it. The \<open>timestamp\<close> field of a \<open>Signal\<close> holds
  the instant \<open>new Date(timestamp).getTime()\<close> in milliseconds, and the comparator
  \<open>(a, b) => time(b) - time(a)\<close> with a stable sort is \<open>sort_key\<close> on the negated time.
\<close>

type_synonym 'a store = "'a list list"

definition alloc :: "'a store \<Rightarrow> 'a list \<Rightarrow> nat \<times> 'a store" where
  "alloc h xs = (length h, h @ [xs])"

definition arr_spread :: "'a store \<Rightarrow> nat \<Rightarrow> nat \<times> 'a store" where
  "arr_spread h r = alloc h (h ! r)"

definition arr_filter :: "'a store \<Rightarrow> nat \<Rightarrow> ('a \<Rightarrow> bool) \<Rightarrow> nat \<times> 'a store" where
  "arr_filter h r p = alloc h (filter p (h ! r))"

definition arr_sort_key :: "'a store \<Rightarrow> nat \<Rightarrow> ('a \<Rightarrow> int) \<Rightarrow> nat \<times> 'a store" where
  "arr_sort_key h r k = (r, h[r := sort_key k (h ! r)])"

definition filteredSignals :: "Signal store \<Rightarrow> nat \<Rightarrow> string \<Rightarrow> string \<Rightarrow> nat \<times> Signal store" where
  "filteredSignals h signals searchQuery filterType =
     (let (result, h1) = arr_spread h signals;
          (result, h2) =
            (if searchQuery \<noteq> [] then
               arr_filter h1 result
                 (\<lambda>signal. js_includes (toLowerCase (asset signal)) (toLowerCase searchQuery))
             else (result, h1));
          (result, h3) =
            (if filterType \<noteq> ''all'' then
               arr_filter h2 result (\<lambda>signal. sig_type signal = filterType)
             else (result, h2))
      in arr_sort_key h3 result (\<lambda>signal. - timestamp signal))"

text \<open>The elements \<open>filteredSignals\<close> keeps, as one predicate.\<close>

definition signalMatches :: "string \<Rightarrow> string \<Rightarrow> Signal \<Rightarrow> bool" where
  "signalMatches searchQuery filterType signal =
     ((searchQuery = [] \<or> js_includes (toLowerCase (asset signal)) (toLowerCase searchQuery))
      \<and> (filterType = ''all'' \<or> sig_type signal = filterType))"

text \<open>\<open>filteredProtocols\<close> on the store: \<open>filter\<close> returns a newly allocated array.\<close>

definition filteredProtocols_in :: "DefiProtocol store \<Rightarrow> nat \<Rightarrow> string \<Rightarrow> string \<Rightarrow> nat \<times> DefiProtocol store" where
  "filteredProtocols_in h protocols searchTerm selectedCategory =
     alloc h (filteredProtocols (h ! protocols) searchTerm selectedCategory)"

section \<open>The payment store\<close>

text \<open>
  The Pinia store \<open>payment\<close> and the records of services/api/payment.service.ts.
  An action awaits one call of the payment service; the outcome of that call is an
  argument of the action here: \<open>Inl\<close> a rejection, \<open>Inr\<close> the value the service
  resolved with. The TypeScript types of these values are not checked when the program
  runs, and the api service of the repository resolves the payment calls with the empty
  object \<open>{}\<close>. So a payment method is an object of which any field may be missing
  (\<open>None\<close>), and the value held in \<open>paymentMethods\<close> is an array or a value without
  the array methods, \<open>{}\<close> for one (\<open>NotArray\<close>): calling \<open>find\<close>, \<open>push\<close>,
  \<open>filter\<close> or \<open>map\<close> on it throws a \<open>TypeError\<close>. The elements of an array
  and the value a rejection carries are objects.
\<close>

record PaymentMethod =
  pm_id :: "string option"
  pm_user_id :: "string option"
  pm_type :: "string option"
  provider :: "string option"
  last_four :: "string option"
  expiry_date :: "string option"
  brand :: "string option"
  is_default :: "bool option"
  pm_status :: "string option"
  pm_created_at :: "string option"

definition empty_object :: PaymentMethod where
  "empty_object =
     \<lparr>pm_id = None, pm_user_id = None, pm_type = None, provider = None, last_four = None,
      expiry_date = None, brand = None, is_default = None, pm_status = None,
      pm_created_at = None\<rparr>"

datatype methods_value = MethodList "PaymentMethod list" | NotArray

record Payment =
  pay_id :: string
  pay_user_id :: string
  subscription_id :: "string option"
  amount :: real
  currency :: string
  pay_status :: string
  payment_method_id :: string
  payment_method :: PaymentMethod
  transaction_id :: string
  pay_created_at :: string
  updated_at :: string

text \<open>
  Of \<open>AddPaymentMethodData\<close> the store reads \<open>set_as_default\<close> only (an optional
  boolean); the \<open>details\<close> object goes to the service unread and is left out.
\<close>

record AddPaymentMethodData =
  add_type :: string
  add_provider :: string
  set_as_default :: "bool option"

text \<open>
  What an action catches and throws again: a rejection of the service, of which the
  store reads \<open>error.response?.data?.detail\<close>, or a \<open>TypeError\<close>, which has no
  \<open>response\<close>.
\<close>

record api_error =
  detail :: "string option"

datatype thrown = Rejected api_error | TypeError

record payment_state =
  paymentMethods :: methods_value
  payments :: "Payment list"
  defaultPaymentMethod :: "PaymentMethod option"
  loading :: bool
  error :: "string option"

text \<open>\<open>error.response?.data?.detail || fallback\<close>: an absent or empty detail is falsy.\<close>

definition error_message :: "thrown \<Rightarrow> string \<Rightarrow> string" where
  "error_message e fallback =
     (case e of
        Rejected r \<Rightarrow> (case detail r of None \<Rightarrow> fallback | Some d \<Rightarrow> if d = [] then fallback else d)
      | TypeError \<Rightarrow> fallback)"

definition msg_fetch_methods_failed :: string where
  "msg_fetch_methods_failed =
     [CHR 0xE8, CHR 0x8E, CHR 0xB7, CHR 0xE5, CHR 0x8F, CHR 0x96, CHR 0xE6, CHR 0x94, CHR 0xAF,
      CHR 0xE4, CHR 0xBB, CHR 0x98, CHR 0xE6, CHR 0x96, CHR 0xB9, CHR 0xE5, CHR 0xBC, CHR 0x8F,
      CHR 0xE5, CHR 0xA4, CHR 0xB1, CHR 0xE8, CHR 0xB4, CHR 0xA5]"

definition msg_add_method_failed :: string where
  "msg_add_method_failed =
     [CHR 0xE6, CHR 0xB7, CHR 0xBB, CHR 0xE5, CHR 0x8A, CHR 0xA0, CHR 0xE6, CHR 0x94, CHR 0xAF,
      CHR 0xE4, CHR 0xBB, CHR 0x98, CHR 0xE6, CHR 0x96, CHR 0xB9, CHR 0xE5, CHR 0xBC, CHR 0x8F,
      CHR 0xE5, CHR 0xA4, CHR 0xB1, CHR 0xE8, CHR 0xB4, CHR 0xA5]"

definition msg_delete_method_failed :: string where
  "msg_delete_method_failed =
     [CHR 0xE5, CHR 0x88, CHR 0xA0, CHR 0xE9, CHR 0x99, CHR 0xA4, CHR 0xE6, CHR 0x94, CHR 0xAF,
      CHR 0xE4, CHR 0xBB, CHR 0x98, CHR 0xE6, CHR 0x96, CHR 0xB9, CHR 0xE5, CHR 0xBC, CHR 0x8F,
      CHR 0xE5, CHR 0xA4, CHR 0xB1, CHR 0xE8, CHR 0xB4, CHR 0xA5]"

definition msg_set_default_failed :: string where
  "msg_set_default_failed =
     [CHR 0xE8, CHR 0xAE, CHR 0xBE, CHR 0xE7, CHR 0xBD, CHR 0xAE, CHR 0xE9, CHR 0xBB, CHR 0x98,
      CHR 0xE8, CHR 0xAE, CHR 0xA4, CHR 0xE6, CHR 0x94, CHR 0xAF, CHR 0xE4, CHR 0xBB, CHR 0x98,
      CHR 0xE6, CHR 0x96, CHR 0xB9, CHR 0xE5, CHR 0xBC, CHR 0x8F, CHR 0xE5, CHR 0xA4, CHR 0xB1,
      CHR 0xE8, CHR 0xB4, CHR 0xA5]"

definition initial_payment_state :: payment_state where
  "initial_payment_state =
     \<lparr>paymentMethods = MethodList [], payments = [], defaultPaymentMethod = None,
      loading = False, error = None\<rparr>"

text \<open>
  \<open>fetchPaymentMethods\<close> assigns the answer to \<open>paymentMethods\<close> first and then calls
  \<open>find\<close> on it. On an answer that is not an array the call throws after the
  assignment: the answer stays in \<open>paymentMethods\<close> and the default is not touched.
\<close>

definition fetchPaymentMethods ::
  "payment_state \<Rightarrow> api_error + methods_value \<Rightarrow> payment_state \<times> (thrown + methods_value)" where
  "fetchPaymentMethods st reply =
     (let st = st\<lparr>loading := True, error := None\<rparr> in
      case reply of
        Inr answer \<Rightarrow>
          (let st = st\<lparr>paymentMethods := answer\<rparr> in
           case paymentMethods st of
             MethodList methods \<Rightarrow>
               (let st = st\<lparr>defaultPaymentMethod :=
                              find (\<lambda>method. is_default method = Some True) methods\<rparr>
                in (st\<lparr>loading := False\<rparr>, Inr (paymentMethods st)))
           | NotArray \<Rightarrow>
               (st\<lparr>error := Some (error_message TypeError msg_fetch_methods_failed),
                   loading := False\<rparr>, Inl TypeError))
      | Inl e \<Rightarrow>
          (st\<lparr>error := Some (error_message (Rejected e) msg_fetch_methods_failed),
              loading := False\<rparr>, Inl (Rejected e)))"

definition addPaymentMethod ::
  "payment_state \<Rightarrow> AddPaymentMethodData \<Rightarrow> api_error + PaymentMethod \<Rightarrow> payment_state \<times> (thrown + PaymentMethod)" where
  "addPaymentMethod st data reply =
     (let st = st\<lparr>loading := True, error := None\<rparr> in
      case reply of
        Inr paymentMethod \<Rightarrow>
          (case paymentMethods st of
             MethodList methods \<Rightarrow>
               (let st = st\<lparr>paymentMethods := MethodList (methods @ [paymentMethod])\<rparr>;
                    st = (if set_as_default data = Some True \<or> length (methods @ [paymentMethod]) = 1
                          then st\<lparr>defaultPaymentMethod := Some paymentMethod\<rparr> else st)
                in (st\<lparr>loading := False\<rparr>, Inr paymentMethod))
           | NotArray \<Rightarrow>
               (st\<lparr>error := Some (error_message TypeError msg_add_method_failed),
                   loading := False\<rparr>, Inl TypeError))
      | Inl e \<Rightarrow>
          (st\<lparr>error := Some (error_message (Rejected e) msg_add_method_failed),
              loading := False\<rparr>, Inl (Rejected e)))"

text \<open>
  \<open>method.id !== paymentMethodId\<close> keeps a method without an id, and
  \<open>this.defaultPaymentMethod?.id === paymentMethodId\<close> is false when there is no
  default or the default has no id.
\<close>

definition deletePaymentMethod ::
  "payment_state \<Rightarrow> string \<Rightarrow> api_error + unit \<Rightarrow> payment_state \<times> (thrown + unit)" where
  "deletePaymentMethod st paymentMethodId reply =
     (let st = st\<lparr>loading := True, error := None\<rparr> in
      case reply of
        Inr answer \<Rightarrow>
          (case paymentMethods st of
             MethodList methods \<Rightarrow>
               (let remaining = filter (\<lambda>method. pm_id method \<noteq> Some paymentMethodId) methods;
                    st = st\<lparr>paymentMethods := MethodList remaining\<rparr>;
                    st = (if Option.bind (defaultPaymentMethod st) pm_id = Some paymentMethodId
                          then st\<lparr>defaultPaymentMethod :=
                                 (case remaining of [] \<Rightarrow> None | m # _ \<Rightarrow> Some m)\<rparr>
                          else st)
                in (st\<lparr>loading := False\<rparr>, Inr ()))
           | NotArray \<Rightarrow>
               (st\<lparr>error := Some (error_message TypeError msg_delete_method_failed),
                   loading := False\<rparr>, Inl TypeError))
      | Inl e \<Rightarrow>
          (st\<lparr>error := Some (error_message (Rejected e) msg_delete_method_failed),
              loading := False\<rparr>, Inl (Rejected e)))"

definition setDefaultPaymentMethod ::
  "payment_state \<Rightarrow> string \<Rightarrow> api_error + PaymentMethod \<Rightarrow> payment_state \<times> (thrown + PaymentMethod)" where
  "setDefaultPaymentMethod st paymentMethodId reply =
     (let st = st\<lparr>loading := True, error := None\<rparr> in
      case reply of
        Inr updatedMethod \<Rightarrow>
          (case paymentMethods st of
             MethodList methods \<Rightarrow>
               (let st = st\<lparr>paymentMethods := MethodList
                            (map (\<lambda>method. method\<lparr>is_default :=
                                    Some (pm_id method = Some paymentMethodId)\<rparr>) methods)\<rparr>;
                    st = st\<lparr>defaultPaymentMethod := Some updatedMethod\<rparr>
                in (st\<lparr>loading := False\<rparr>, Inr updatedMethod))
           | NotArray \<Rightarrow>
               (st\<lparr>error := Some (error_message TypeError msg_set_default_failed),
                   loading := False\<rparr>, Inl TypeError))
      | Inl e \<Rightarrow>
          (st\<lparr>error := Some (error_message (Rejected e) msg_set_default_failed),
              loading := False\<rparr>, Inl (Rejected e)))"

definition reset :: "payment_state \<Rightarrow> payment_state" where
  "reset st =
     st\<lparr>paymentMethods := MethodList [], payments := [], defaultPaymentMethod := None,
        error := None\<rparr>"

text \<open>
  The api service of the repository (its \<open>get\<close>, \<open>post\<close> and \<open>put\<close> know no payment
  path and end in \<open>return {}\<close>): what it answers to the three calls of the store.
\<close>

definition bundled_getPaymentMethods :: "api_error + methods_value" where
  "bundled_getPaymentMethods = Inr NotArray"

definition bundled_addPaymentMethod :: "api_error + PaymentMethod" where
  "bundled_addPaymentMethod = Inr empty_object"

definition bundled_setDefaultPaymentMethod :: "api_error + PaymentMethod" where
  "bundled_setDefaultPaymentMethod = Inr empty_object"

text \<open>
  The default method, when there is one, has the id of a listed method; a value that is
  not an array lists nothing.
\<close>

definition default_listed :: "payment_state \<Rightarrow> bool" where
  "default_listed st =
     (case defaultPaymentMethod st of
        None \<Rightarrow> True
      | Some d \<Rightarrow>
          (case paymentMethods st of
             MethodList methods \<Rightarrow> pm_id d \<in> set (map pm_id methods)
           | NotArray \<Rightarrow> False))"

text \<open>A card record for worked examples: \<open>sample_method i d\<close> has id \<open>i\<close> and default flag \<open>d\<close>.\<close>

definition sample_method :: "string \<Rightarrow> bool \<Rightarrow> PaymentMethod" where
  "sample_method i d =
     \<lparr>pm_id = Some i, pm_user_id = Some ''user123'', pm_type = Some ''card'',
      provider = Some ''stripe'', last_four = Some ''4242'', expiry_date = Some ''12/30'',
      brand = Some ''visa'', is_default = Some d, pm_status = Some ''active'',
      pm_created_at = Some ''2024-01-01T00:00:00.000Z''\<rparr>"

section \<open>Calendar dates\<close>

text \<open>
  A JavaScript \<open>Date\<close> holds an instant; \<open>getMonth\<close> and \<open>getDate\<close> read it as a
  calendar date of the local time zone. A \<open>jsdate\<close> is such a local calendar date: year,
  month (0 to 11) and day of the month.

  \<open>date.setDate(v)\<close> takes the local date, puts \<open>v\<close> in place of the day of the
  month (a value below 1 or above the length of the month moves into the earlier or later
  months, through as many months as it takes: \<open>setDate_from\<close>), keeps the local time of
  day and turns the result back into an instant. Read again, the Date shows the wanted
  date, except where the local zone has no such time: when the zone's clocks were moved
  forward over it, the instant chosen lies on a later local date (Pacific/Apia has no
  30 December 2011), and an instant outside the range of \<open>Date\<close> makes the Date
  invalid. The zone is a parameter \<open>tz\<close>: \<open>tz d\<close> is the local date a Date shows
  after it was set to the wanted date \<open>d\<close> at the time of day of \<open>new Date()\<close>, and
  \<open>None\<close> for an invalid Date.
\<close>

record jsdate =
  year :: int
  month :: nat
  dayOfMonth :: nat

definition leap :: "int \<Rightarrow> bool" where
  "leap y = (y mod 4 = 0 \<and> (y mod 100 \<noteq> 0 \<or> y mod 400 = 0))"

definition daysInMonth :: "int \<Rightarrow> nat \<Rightarrow> nat" where
  "daysInMonth y m =
     (if m = 1 then (if leap y then 29 else 28)
      else if m = 3 \<or> m = 5 \<or> m = 8 \<or> m = 10 then 30 else 31)"

function setDate_from :: "int \<Rightarrow> nat \<Rightarrow> int \<Rightarrow> jsdate" where
  "setDate_from y m v =
     (if v < 1 then
        (let y' = (if m = 0 then y - 1 else y); m' = (if m = 0 then 11 else m - 1)
         in setDate_from y' m' (v + int (daysInMonth y' m')))
      else if v > int (daysInMonth y m) then
        (let y' = (if m = 11 then y + 1 else y); m' = (if m = 11 then 0 else m + 1)
         in setDate_from y' m' (v - int (daysInMonth y m)))
      else \<lparr>year = y, month = m, dayOfMonth = nat v\<rparr>)"
  by pat_completeness auto
termination
  by (relation "measure (\<lambda>(y, m, v). if v < 1 then nat (1 - v) + 32 else nat v)")
     (auto simp: daysInMonth_def)

declare setDate_from.simps [simp del]

type_synonym zone = "jsdate \<Rightarrow> jsdate option"

definition setDate :: "zone \<Rightarrow> jsdate \<Rightarrow> int \<Rightarrow> jsdate option" where
  "setDate tz d v = tz (setDate_from (year d) (month d) v)"

text \<open>
  Two zones: one whose offset never changes (UTC, say), and Pacific/Apia at the end of
  2011, where 29 December was followed by 31 December.
\<close>

definition fixed_zone :: zone where
  "fixed_zone d = Some d"

definition apia_2011 :: zone where
  "apia_2011 d =
     (if d = \<lparr>year = 2011, month = 11, dayOfMonth = 30\<rparr>
      then Some \<lparr>year = 2011, month = 11, dayOfMonth = 31\<rparr> else Some d)"







text \<open>
  The label of a day is a template string: the month number \<open>getMonth() + 1\<close>, the
  character U+6708 (month), the day number \<open>getDate()\<close>, the character U+65E5 (day).
  \<open>yue\<close> and \<open>ri\<close> are the UTF-8 bytes of the two characters, \<open>showNat\<close> is the
  decimal text of a number. On an invalid Date both methods return \<open>NaN\<close>, which the
  template prints as the text NaN.
\<close>

definition digit :: "nat \<Rightarrow> char" where
  "digit n = char_of (48 + n)"

fun showNat :: "nat \<Rightarrow> string" where
  "showNat n = (if n < 10 then [digit n] else showNat (n div 10) @ [digit (n mod 10)])"

declare showNat.simps [simp del]


definition yue :: string where
  "yue = [CHR 0xE6, CHR 0x9C, CHR 0x88]"

definition ri :: string where
  "ri = [CHR 0xE6, CHR 0x97, CHR 0xA5]"

definition getMonth :: "jsdate \<Rightarrow> nat" where
  "getMonth d = month d"

definition getDate :: "jsdate \<Rightarrow> nat" where
  "getDate d = dayOfMonth d"

definition dateStr :: "jsdate option \<Rightarrow> string" where
  "dateStr date =
     (case date of
        Some d \<Rightarrow> showNat (getMonth d + 1) @ yue @ showNat (getDate d) @ ri
      | None \<Rightarrow> ''NaN'' @ yue @ ''NaN'' @ ri)"

text \<open>
  \<open>generateTestChartData\<close> of the data service. The loop runs \<open>i\<close> from
  \<open>days - 1\<close> down to 0 and pushes one point per round; \<open>random k\<close> is the value of the
  \<open>k\<close>-th call of \<open>Math.random()\<close> (one call per round); \<open>today\<close> is the local
  date of \<open>new Date()\<close>.
\<close>

record ChartData =
  cd_date :: string
  cd_signals :: int
  cd_activity :: int

datatype chart_type = SignalsType | ActivityType

function generateTestChartData_loop ::
  "zone \<Rightarrow> jsdate \<Rightarrow> (nat \<Rightarrow> real) \<Rightarrow> chart_type \<Rightarrow> int \<Rightarrow> ChartData list \<Rightarrow> ChartData list" where
  "generateTestChartData_loop tz today random type i data =
     (if i \<ge> 0 then
        (let date = setDate tz today (int (getDate today) - i);
             dateStr = dateStr date;
             data =
               (if type = SignalsType then
                  data @ [\<lparr>cd_date = dateStr, cd_signals = \<lfloor>random (length data) * 50\<rfloor> + 50, cd_activity = 0\<rparr>]
                else
                  data @ [\<lparr>cd_date = dateStr, cd_signals = 0, cd_activity = \<lfloor>random (length data) * 30\<rfloor> + 60\<rparr>])
         in generateTestChartData_loop tz today random type (i - 1) data)
      else data)"
  by pat_completeness auto
termination
  by (relation "measure (\<lambda>(tz, today, random, type, i, data). nat (i + 1))") auto

declare generateTestChartData_loop.simps [simp del]

definition generateTestChartData ::
  "zone \<Rightarrow> jsdate \<Rightarrow> (nat \<Rightarrow> real) \<Rightarrow> int \<Rightarrow> chart_type \<Rightarrow> ChartData list" where
  "generateTestChartData tz today random days type =
     generateTestChartData_loop tz today random type (days - 1) []"

definition getSignalTrendData :: "zone \<Rightarrow> jsdate \<Rightarrow> (nat \<Rightarrow> real) \<Rightarrow> int \<Rightarrow> ChartData list" where
  "getSignalTrendData tz today random days = generateTestChartData tz today random days SignalsType"


section \<open>The dashboard view\<close>

text \<open>
  The dashboard's own \<open>ChartData\<close> has two more fields than the service's, and its
  \<open>generateChartData\<close> has four kinds of series. A round of the loop evaluates one of
  the four conditional fields only, so it calls \<open>Math.random()\<close> once.
  \<open>parseFloat(x.toFixed(2))\<close> is \<open>x\<close> rounded to two decimals.
\<close>

record DashboardMetrics =
  total_signals :: real
  active_projects :: real
  market_sentiment :: string
  sentiment_score :: real
  solana_activity :: real

record DashChartData =
  dc_date :: string
  dc_signals :: int
  dc_activity :: int
  dc_price :: real
  dc_volume :: int

datatype dash_chart_type = DashSignals | DashActivity | DashPrice | DashVolume

definition toFixed2 :: "real \<Rightarrow> real" where
  "toFixed2 x = real_of_int (round (x * 100)) / 100"

function generateChartData_loop ::
  "zone \<Rightarrow> jsdate \<Rightarrow> (nat \<Rightarrow> real) \<Rightarrow> dash_chart_type \<Rightarrow> int \<Rightarrow> DashChartData list \<Rightarrow> DashChartData list" where
  "generateChartData_loop tz today random type i data =
     (if i \<ge> 0 then
        (let date = setDate tz today (int (getDate today) - i);
             dateStr = dateStr date;
             baseValue = (if type = DashPrice then 100 else if type = DashVolume then 1000000 else 50);
             variation = (if type = DashPrice then 5 else if type = DashVolume then 500000 else 20);
             r = random (length data);
             data = data @
               [\<lparr>dc_date = dateStr,
                 dc_signals = (if type = DashSignals
                    then \<lfloor>baseValue + r * variation - variation / 2\<rfloor> else 0),
                 dc_activity = (if type = DashActivity then \<lfloor>50 + r * 50\<rfloor> else 0),
                 dc_price = (if type = DashPrice
                    then toFixed2 (baseValue + r * variation - variation / 2) else 0),
                 dc_volume = (if type = DashVolume
                    then \<lfloor>baseValue + r * variation - variation / 2\<rfloor> else 0)\<rparr>]
         in generateChartData_loop tz today random type (i - 1) data)
      else data)"
  by pat_completeness auto
termination
  by (relation "measure (\<lambda>(tz, today, random, type, i, data). nat (i + 1))") auto

declare generateChartData_loop.simps [simp del]

definition generateChartData ::
  "zone \<Rightarrow> jsdate \<Rightarrow> (nat \<Rightarrow> real) \<Rightarrow> int \<Rightarrow> dash_chart_type \<Rightarrow> DashChartData list" where
  "generateChartData tz today random days type =
     generateChartData_loop tz today random type (days - 1) []"

text \<open>
  A rejected promise carries a reason. \<open>Promise.all\<close> of three calls resolves with the
  three values when all resolve and rejects when one rejects; the view's \<open>catch\<close> does
  not read the reason. The outcome of each awaited service call is an argument.
\<close>

datatype fetch_error = FetchError string

definition promise_all3 ::
  "fetch_error + 'a \<Rightarrow> fetch_error + 'b \<Rightarrow> fetch_error + 'c \<Rightarrow> fetch_error + ('a \<times> 'b \<times> 'c)" where
  "promise_all3 a b c =
     (case a of Inl e \<Rightarrow> Inl e
      | Inr x \<Rightarrow> (case b of Inl e \<Rightarrow> Inl e
         | Inr y \<Rightarrow> (case c of Inl e \<Rightarrow> Inl e | Inr z \<Rightarrow> Inr (x, y, z))))"

record dashboard_state =
  isLoading_all :: bool
  error_data :: string
  selectedProjectCategory :: string
  isDataLoaded :: bool
  recentSignals :: "Signal list"
  hotProjects :: "Project list"
  metrics :: DashboardMetrics
  signalTrendData :: "DashChartData list"
  projectActivityData :: "DashChartData list"
  priceTrendData :: "DashChartData list"
  volumeTrendData :: "DashChartData list"

definition initial_dashboard_state :: dashboard_state where
  "initial_dashboard_state =
     \<lparr>isLoading_all = False, error_data = [], selectedProjectCategory = [], isDataLoaded = False,
      recentSignals = [], hotProjects = [],
      metrics = \<lparr>total_signals = 0, active_projects = 0,
        market_sentiment = [CHR 0xE4, CHR 0xB8, CHR 0xAD, CHR 0xE6, CHR 0x80, CHR 0xA7],
        sentiment_score = 50, solana_activity = 0\<rparr>,
      signalTrendData = [], projectActivityData = [], priceTrendData = [], volumeTrendData = []\<rparr>"

definition msg_load_failed :: string where
  "msg_load_failed =
     [CHR 0xE8, CHR 0x8E, CHR 0xB7, CHR 0xE5, CHR 0x8F, CHR 0x96, CHR 0xE6, CHR 0x95, CHR 0xB0,
      CHR 0xE6, CHR 0x8D, CHR 0xAE, CHR 0xE5, CHR 0xA4, CHR 0xB1, CHR 0xE8, CHR 0xB4, CHR 0xA5]"

text \<open>
  \<open>loadData\<close>. The four series are generated one after the other; each takes seven
  values of \<open>Math.random()\<close>. The charts are drawn later from a timer and are not part of
  this state.
\<close>

definition loadData ::
  "dashboard_state \<Rightarrow> zone \<Rightarrow> jsdate \<Rightarrow> (nat \<Rightarrow> real) \<Rightarrow> fetch_error + DashboardMetrics
     \<Rightarrow> fetch_error + Signal list \<Rightarrow> fetch_error + Project list \<Rightarrow> dashboard_state" where
  "loadData st tz today random metricsReply signalsReply projectsReply =
     (let st = st\<lparr>isLoading_all := True, error_data := []\<rparr> in
      case promise_all3 metricsReply signalsReply projectsReply of
        Inr (metricsData, signalsData, projectsData) \<Rightarrow>
          (let st = st\<lparr>metrics := metricsData, recentSignals := signalsData,
                        hotProjects := projectsData\<rparr>;
               st = st\<lparr>signalTrendData := generateChartData tz today random 7 DashSignals,
                        projectActivityData :=
                          generateChartData tz today (\<lambda>k. random (k + 7)) 7 DashActivity,
                        priceTrendData :=
                          generateChartData tz today (\<lambda>k. random (k + 14)) 7 DashPrice,
                        volumeTrendData :=
                          generateChartData tz today (\<lambda>k. random (k + 21)) 7 DashVolume\<rparr>;
               st = st\<lparr>isDataLoaded := True\<rparr>
           in st\<lparr>isLoading_all := False\<rparr>)
      | Inl err \<Rightarrow> st\<lparr>error_data := msg_load_failed, isLoading_all := False\<rparr>)"

text \<open>\<open>filteredHotProjects\<close>: the dashboard filters its projects by category only.\<close>

definition filteredHotProjects :: "dashboard_state \<Rightarrow> Project list" where
  "filteredHotProjects st =
     (if selectedProjectCategory st = [] then hotProjects st
      else filter (\<lambda>project. proj_category project = selectedProjectCategory st) (hotProjects st))"

text \<open>The service's dashboard figures; the sentiment label is the UTF-8 text of U+770B U+6DA8.\<close>

definition getDashboardMetrics :: DashboardMetrics where
  "getDashboardMetrics =
     \<lparr>total_signals = 1250, active_projects = 42,
      market_sentiment = [CHR 0xE7, CHR 0x9C, CHR 0x8B, CHR 0xE6, CHR 0xB6, CHR 0xA8],
      sentiment_score = 78, solana_activity = 85\<rparr>"

section \<open>The signal history view\<close>

record history_state =
  hs_isLoading :: bool
  hs_error :: string
  hs_signals :: "Signal list"
  hs_searchQuery :: string
  hs_filterType :: string
  hs_currentPage :: nat
  hs_pageSize :: nat

definition msg_signals_failed :: string where
  "msg_signals_failed =
     [CHR 0xE8, CHR 0x8E, CHR 0xB7, CHR 0xE5, CHR 0x8F, CHR 0x96, CHR 0xE4, CHR 0xBF, CHR 0xA1,
      CHR 0xE5, CHR 0x8F, CHR 0xB7, CHR 0xE6, CHR 0x95, CHR 0xB0, CHR 0xE6, CHR 0x8D, CHR 0xAE,
      CHR 0xE5, CHR 0xA4, CHR 0xB1, CHR 0xE8, CHR 0xB4, CHR 0xA5]"

definition loadSignals :: "history_state \<Rightarrow> fetch_error + Signal list \<Rightarrow> history_state" where
  "loadSignals st reply =
     (let st = st\<lparr>hs_isLoading := True, hs_error := []\<rparr> in
      case reply of
        Inr fetched \<Rightarrow>
          st\<lparr>hs_signals := fetched, hs_currentPage := 1, hs_isLoading := False\<rparr>
      | Inl err \<Rightarrow> st\<lparr>hs_error := msg_signals_failed, hs_isLoading := False\<rparr>)"

section \<open>The detail views\<close>

text \<open>
  The project detail view. The object \<open>enhanceProjectData\<close> builds spreads the base
  project and adds a description, category, token and links looked up by the project's
  name, and market, development, community and risk data drawn from \<open>Math.random()\<close>.
  Its \<open>launchDate\<close>, a text made from the clock and a random number and shown as text,
  is left out. The parts \<open>marketData\<close>, \<open>development\<close>, \<open>community\<close> and \<open>risk\<close>
  are objects the template reads fields of; a part is optional in the record so that an
  object without it can be told from one with it.
\<close>

record MarketData =
  md_price :: real
  md_marketCap :: real
  md_volume24h :: real
  md_circulatingSupply :: real
  md_high24h :: real
  md_low24h :: real
  md_change7d :: real

record Development =
  dev_activity :: int
  dev_developers :: int
  dev_codeQuality :: int
  dev_documentation :: int

record Community =
  com_socialMedia :: int
  com_engagement :: int
  com_growth :: int
  com_support :: int

record Risk =
  risk_market :: int
  risk_technical :: int
  risk_regulatory :: int
  risk_summary_text :: string

text \<open>
  The lookups are \<open>table[name] || fallback\<close> on object literals. A name that is not a
  key of the literal but a property every object inherits (\<open>constructor\<close>,
  \<open>toString\<close>, ...) finds that inherited function or object, which is truthy, so the
  fallback is not taken: \<open>JInherited\<close> is such a value.
\<close>

datatype jsval = JStr string | JInherited string

definition object_prototype_keys :: "string list" where
  "object_prototype_keys =
     [''constructor'', ''__defineGetter__'', ''__defineSetter__'', ''hasOwnProperty'',
      ''__lookupGetter__'', ''__lookupSetter__'', ''isPrototypeOf'', ''propertyIsEnumerable'',
      ''toString'', ''valueOf'', ''__proto__'', ''toLocaleString'']"

definition lookup_or :: "(string \<times> string) list \<Rightarrow> string \<Rightarrow> string \<Rightarrow> jsval" where
  "lookup_or table key fallback =
     (case map_of table key of
        Some v \<Rightarrow> if v = [] then JStr fallback else JStr v
      | None \<Rightarrow> if key \<in> set object_prototype_keys then JInherited key else JStr fallback)"

record ProjectDetail =
  pd_id :: string
  pd_name :: string
  pd_category :: jsval
  pd_score :: real
  pd_change :: real
  pd_description :: jsval
  pd_token :: jsval
  pd_website :: string
  pd_twitter :: string
  pd_github :: string
  marketData :: "MarketData option"
  development :: "Development option"
  community :: "Community option"
  risk :: "Risk option"

text \<open>The texts of the source, as UTF-8 bytes.\<close>

definition description_solana :: string where
  "description_solana =
     ''Solana'' @ [CHR 0xE6, CHR 0x98, CHR 0xAF, CHR 0xE4, CHR 0xB8, CHR 0x80, CHR 0xE4,
     CHR 0xB8, CHR 0xAA, CHR 0xE9, CHR 0xAB, CHR 0x98, CHR 0xE6, CHR 0x80, CHR 0xA7, CHR 0xE8,
     CHR 0x83, CHR 0xBD, CHR 0xE7, CHR 0x9A, CHR 0x84, CHR 0xE5, CHR 0x8C, CHR 0xBA, CHR 0xE5,
     CHR 0x9D, CHR 0x97, CHR 0xE9, CHR 0x93, CHR 0xBE, CHR 0xE5, CHR 0xB9, CHR 0xB3, CHR 0xE5,
     CHR 0x8F, CHR 0xB0, CHR 0xEF, CHR 0xBC, CHR 0x8C, CHR 0xE4, CHR 0xB8, CHR 0x93, CHR 0xE4,
     CHR 0xB8, CHR 0xBA, CHR 0xE5, CHR 0x8E, CHR 0xBB, CHR 0xE4, CHR 0xB8, CHR 0xAD, CHR 0xE5,
     CHR 0xBF, CHR 0x83, CHR 0xE5, CHR 0x8C, CHR 0x96, CHR 0xE5, CHR 0xBA, CHR 0x94, CHR 0xE7,
     CHR 0x94, CHR 0xA8, CHR 0xE5, CHR 0x92, CHR 0x8C, CHR 0xE5, CHR 0x8A, CHR 0xA0, CHR 0xE5,
     CHR 0xAF, CHR 0x86, CHR 0xE8, CHR 0xB4, CHR 0xA7, CHR 0xE5, CHR 0xB8, CHR 0x81, CHR 0xE8,
     CHR 0x80, CHR 0x8C, CHR 0xE8, CHR 0xAE, CHR 0xBE, CHR 0xE8, CHR 0xAE, CHR 0xA1, CHR 0xE3,
     CHR 0x80, CHR 0x82, CHR 0xE5, CHR 0xAE, CHR 0x83, CHR 0xE4, CHR 0xBD, CHR 0xBF, CHR 0xE7,
     CHR 0x94, CHR 0xA8] @ '' Proof of History '' @ [CHR 0xE5, CHR 0x92, CHR 0x8C] @
     '' Proof of Stake '' @ [CHR 0xE5, CHR 0x85, CHR 0xB1, CHR 0xE8, CHR 0xAF, CHR 0x86,
     CHR 0xE6, CHR 0x9C, CHR 0xBA, CHR 0xE5, CHR 0x88, CHR 0xB6, CHR 0xEF, CHR 0xBC, CHR 0x8C,
     CHR 0xE6, CHR 0x8F, CHR 0x90, CHR 0xE4, CHR 0xBE, CHR 0x9B, CHR 0xE9, CHR 0xAB, CHR 0x98,
     CHR 0xE5, CHR 0x90, CHR 0x9E, CHR 0xE5, CHR 0x90, CHR 0x90, CHR 0xE9, CHR 0x87, CHR 0x8F,
     CHR 0xE5, CHR 0x92, CHR 0x8C, CHR 0xE4, CHR 0xBD, CHR 0x8E, CHR 0xE4, CHR 0xBA, CHR 0xA4,
     CHR 0xE6, CHR 0x98, CHR 0x93, CHR 0xE8, CHR 0xB4, CHR 0xB9, CHR 0xE7, CHR 0x94, CHR 0xA8,
     CHR 0xE3, CHR 0x80, CHR 0x82]"

definition description_serum :: string where
  "description_serum =
     ''Serum'' @ [CHR 0xE6, CHR 0x98, CHR 0xAF, CHR 0xE5, CHR 0xBB, CHR 0xBA, CHR 0xE7,
     CHR 0xAB, CHR 0x8B, CHR 0xE5, CHR 0x9C, CHR 0xA8] @ ''Solana'' @ [CHR 0xE4, CHR 0xB8,
     CHR 0x8A, CHR 0xE7, CHR 0x9A, CHR 0x84, CHR 0xE5, CHR 0x8E, CHR 0xBB, CHR 0xE4, CHR 0xB8,
     CHR 0xAD, CHR 0xE5, CHR 0xBF, CHR 0x83, CHR 0xE5, CHR 0x8C, CHR 0x96, CHR 0xE4, CHR 0xBA,
     CHR 0xA4, CHR 0xE6, CHR 0x98, CHR 0x93, CHR 0xE6, CHR 0x89, CHR 0x80] @ ''(DEX)'' @
     [CHR 0xEF, CHR 0xBC, CHR 0x8C, CHR 0xE6, CHR 0x8F, CHR 0x90, CHR 0xE4, CHR 0xBE, CHR 0x9B,
     CHR 0xE9, CHR 0xAB, CHR 0x98, CHR 0xE9, CHR 0x80, CHR 0x9F, CHR 0xE5, CHR 0xBA, CHR 0xA6,
     CHR 0xE3, CHR 0x80, CHR 0x81, CHR 0xE4, CHR 0xBD, CHR 0x8E, CHR 0xE6, CHR 0x88, CHR 0x90,
     CHR 0xE6, CHR 0x9C, CHR 0xAC, CHR 0xE7, CHR 0x9A, CHR 0x84, CHR 0xE4, CHR 0xBA, CHR 0xA4,
     CHR 0xE6, CHR 0x98, CHR 0x93, CHR 0xE4, CHR 0xBD, CHR 0x93, CHR 0xE9, CHR 0xAA, CHR 0x8C,
     CHR 0xE3, CHR 0x80, CHR 0x82, CHR 0xE5, CHR 0xAE, CHR 0x83, CHR 0xE4, CHR 0xBD, CHR 0xBF,
     CHR 0xE7, CHR 0x94, CHR 0xA8, CHR 0xE4, CHR 0xB8, CHR 0xAD, CHR 0xE5, CHR 0xA4, CHR 0xAE,
     CHR 0xE9, CHR 0x99, CHR 0x90, CHR 0xE4, CHR 0xBB, CHR 0xB7, CHR 0xE8, CHR 0xAE, CHR 0xA2,
     CHR 0xE5, CHR 0x8D, CHR 0x95, CHR 0xE7, CHR 0xB0, CHR 0xBF, CHR 0xE6, CHR 0xA8, CHR 0xA1,
     CHR 0xE5, CHR 0x9E, CHR 0x8B, CHR 0xEF, CHR 0xBC, CHR 0x8C, CHR 0xE6, CHR 0x94, CHR 0xAF,
     CHR 0xE6, CHR 0x8C, CHR 0x81, CHR 0xE5, CHR 0xA4, CHR 0x8D, CHR 0xE6, CHR 0x9D, CHR 0x82,
     CHR 0xE7, CHR 0x9A, CHR 0x84, CHR 0xE4, CHR 0xBA, CHR 0xA4, CHR 0xE6, CHR 0x98, CHR 0x93,
     CHR 0xE7, CHR 0xAD, CHR 0x96, CHR 0xE7, CHR 0x95, CHR 0xA5, CHR 0xE3, CHR 0x80, CHR 0x82]"

definition description_raydium :: string where
  "description_raydium =
     ''Raydium'' @ [CHR 0xE6, CHR 0x98, CHR 0xAF] @ ''Solana'' @ [CHR 0xE4, CHR 0xB8, CHR 0x8A,
     CHR 0xE7, CHR 0x9A, CHR 0x84, CHR 0xE8, CHR 0x87, CHR 0xAA, CHR 0xE5, CHR 0x8A, CHR 0xA8,
     CHR 0xE5, CHR 0x81, CHR 0x9A, CHR 0xE5, CHR 0xB8, CHR 0x82, CHR 0xE5, CHR 0x95,
     CHR 0x86] @ ''(AMM)'' @ [CHR 0xE5, CHR 0x92, CHR 0x8C, CHR 0xE6, CHR 0xB5, CHR 0x81,
     CHR 0xE5, CHR 0x8A, CHR 0xA8, CHR 0xE6, CHR 0x80, CHR 0xA7, CHR 0xE6, CHR 0x8F, CHR 0x90,
     CHR 0xE4, CHR 0xBE, CHR 0x9B, CHR 0xE8, CHR 0x80, CHR 0x85, CHR 0xEF, CHR 0xBC, CHR 0x8C,
     CHR 0xE4, CHR 0xB8, CHR 0x8E] @ ''Serum DEX'' @ [CHR 0xE9, CHR 0x9B, CHR 0x86, CHR 0xE6,
     CHR 0x88, CHR 0x90, CHR 0xEF, CHR 0xBC, CHR 0x8C, CHR 0xE4, CHR 0xB8, CHR 0xBA, CHR 0xE7,
     CHR 0x94, CHR 0xA8, CHR 0xE6, CHR 0x88, CHR 0xB7, CHR 0xE6, CHR 0x8F, CHR 0x90, CHR 0xE4,
     CHR 0xBE, CHR 0x9B, CHR 0xE6, CHR 0x97, CHR 0xA0, CHR 0xE7, CHR 0xBC, CHR 0x9D, CHR 0xE7,
     CHR 0x9A, CHR 0x84, CHR 0xE4, CHR 0xBA, CHR 0xA4, CHR 0xE6, CHR 0x98, CHR 0x93, CHR 0xE5,
     CHR 0x92, CHR 0x8C, CHR 0xE6, CHR 0xB5, CHR 0x81, CHR 0xE5, CHR 0x8A, CHR 0xA8, CHR 0xE6,
     CHR 0x80, CHR 0xA7, CHR 0xE6, CHR 0x8C, CHR 0x96, CHR 0xE7, CHR 0x9F, CHR 0xBF, CHR 0xE4,
     CHR 0xBD, CHR 0x93, CHR 0xE9, CHR 0xAA, CHR 0x8C, CHR 0xE3, CHR 0x80, CHR 0x82]"

definition description_marinade :: string where
  "description_marinade =
     ''Marinade Finance'' @ [CHR 0xE6, CHR 0x98, CHR 0xAF] @ ''Solana'' @ [CHR 0xE4, CHR 0xB8,
     CHR 0x8A, CHR 0xE7, CHR 0x9A, CHR 0x84, CHR 0xE5, CHR 0x8E, CHR 0xBB, CHR 0xE4, CHR 0xB8,
     CHR 0xAD, CHR 0xE5, CHR 0xBF, CHR 0x83, CHR 0xE5, CHR 0x8C, CHR 0x96, CHR 0xE8, CHR 0xB4,
     CHR 0xA8, CHR 0xE6, CHR 0x8A, CHR 0xBC, CHR 0xE5, CHR 0x8D, CHR 0x8F, CHR 0xE8, CHR 0xAE,
     CHR 0xAE, CHR 0xEF, CHR 0xBC, CHR 0x8C, CHR 0xE5, CHR 0x85, CHR 0x81, CHR 0xE8, CHR 0xAE,
     CHR 0xB8, CHR 0xE7, CHR 0x94, CHR 0xA8, CHR 0xE6, CHR 0x88, CHR 0xB7, CHR 0xE8, CHR 0xB4,
     CHR 0xA8, CHR 0xE6, CHR 0x8A, CHR 0xBC] @ ''SOL'' @ [CHR 0xE5, CHR 0xB9, CHR 0xB6,
     CHR 0xE8, CHR 0x8E, CHR 0xB7, CHR 0xE5, CHR 0xBE, CHR 0x97] @ ''mSOL'' @ [CHR 0xE4,
     CHR 0xBB, CHR 0xA3, CHR 0xE5, CHR 0xB8, CHR 0x81, CHR 0xEF, CHR 0xBC, CHR 0x8C, CHR 0xE5,
     CHR 0x90, CHR 0x8C, CHR 0xE6, CHR 0x97, CHR 0xB6, CHR 0xE4, CHR 0xBF, CHR 0x9D, CHR 0xE6,
     CHR 0x8C, CHR 0x81, CHR 0xE6, CHR 0xB5, CHR 0x81, CHR 0xE5, CHR 0x8A, CHR 0xA8, CHR 0xE6,
     CHR 0x80, CHR 0xA7, CHR 0xE3, CHR 0x80, CHR 0x82]"

definition description_star :: string where
  "description_star =
     ''Star Atlas'' @ [CHR 0xE6, CHR 0x98, CHR 0xAF, CHR 0xE5, CHR 0xBB, CHR 0xBA, CHR 0xE7,
     CHR 0xAB, CHR 0x8B, CHR 0xE5, CHR 0x9C, CHR 0xA8] @ ''Solana'' @ [CHR 0xE4, CHR 0xB8,
     CHR 0x8A, CHR 0xE7, CHR 0x9A, CHR 0x84, CHR 0xE5, CHR 0x8C, CHR 0xBA, CHR 0xE5, CHR 0x9D,
     CHR 0x97, CHR 0xE9, CHR 0x93, CHR 0xBE, CHR 0xE5, CHR 0xA4, CHR 0xAA, CHR 0xE7, CHR 0xA9,
     CHR 0xBA, CHR 0xE6, CHR 0xA8, CHR 0xA1, CHR 0xE6, CHR 0x8B, CHR 0x9F, CHR 0xE6, CHR 0xB8,
     CHR 0xB8, CHR 0xE6, CHR 0x88, CHR 0x8F, CHR 0xEF, CHR 0xBC, CHR 0x8C, CHR 0xE7, CHR 0xBB,
     CHR 0x93, CHR 0xE5, CHR 0x90, CHR 0x88, CHR 0xE4, CHR 0xBA, CHR 0x86] @ ''DeFi'' @
     [CHR 0xE3, CHR 0x80, CHR 0x81] @ ''NFT'' @ [CHR 0xE5, CHR 0x92, CHR 0x8C, CHR 0xE6,
     CHR 0xB8, CHR 0xB8, CHR 0xE6, CHR 0x88, CHR 0x8F, CHR 0xE5, CHR 0x85, CHR 0x83, CHR 0xE7,
     CHR 0xB4, CHR 0xA0, CHR 0xEF, CHR 0xBC, CHR 0x8C, CHR 0xE5, CHR 0x88, CHR 0x9B, CHR 0xE5,
     CHR 0xBB, CHR 0xBA, CHR 0xE4, CHR 0xBA, CHR 0x86, CHR 0xE4, CHR 0xB8, CHR 0x80, CHR 0xE4,
     CHR 0xB8, CHR 0xAA, CHR 0xE8, CHR 0x99, CHR 0x9A, CHR 0xE6, CHR 0x8B, CHR 0x9F, CHR 0xE5,
     CHR 0xAE, CHR 0x87, CHR 0xE5, CHR 0xAE, CHR 0x99, CHR 0xE7, CHR 0xBB, CHR 0x8F, CHR 0xE6,
     CHR 0xB5, CHR 0x8E, CHR 0xE7, CHR 0xB3, CHR 0xBB, CHR 0xE7, CHR 0xBB, CHR 0x9F, CHR 0xE3,
     CHR 0x80, CHR 0x82]"

definition description_other :: string where
  "description_other =
     [CHR 0xE8, CHR 0xBF, CHR 0x99, CHR 0xE6, CHR 0x98, CHR 0xAF, CHR 0xE4, CHR 0xB8, CHR 0x80,
     CHR 0xE4, CHR 0xB8, CHR 0xAA] @ ''Solana'' @ [CHR 0xE7, CHR 0x94, CHR 0x9F, CHR 0xE6,
     CHR 0x80, CHR 0x81, CHR 0xE7, CHR 0xB3, CHR 0xBB, CHR 0xE7, CHR 0xBB, CHR 0x9F, CHR 0xE4,
     CHR 0xB8, CHR 0xAD, CHR 0xE7, CHR 0x9A, CHR 0x84, CHR 0xE9, CHR 0xA1, CHR 0xB9, CHR 0xE7,
     CHR 0x9B, CHR 0xAE, CHR 0xEF, CHR 0xBC, CHR 0x8C, CHR 0xE6, CHR 0x8F, CHR 0x90, CHR 0xE4,
     CHR 0xBE, CHR 0x9B, CHR 0xE5, CHR 0x88, CHR 0x9B, CHR 0xE6, CHR 0x96, CHR 0xB0, CHR 0xE7,
     CHR 0x9A, CHR 0x84, CHR 0xE5, CHR 0x8C, CHR 0xBA, CHR 0xE5, CHR 0x9D, CHR 0x97, CHR 0xE9,
     CHR 0x93, CHR 0xBE, CHR 0xE8, CHR 0xA7, CHR 0xA3, CHR 0xE5, CHR 0x86, CHR 0xB3, CHR 0xE6,
     CHR 0x96, CHR 0xB9, CHR 0xE6, CHR 0xA1, CHR 0x88, CHR 0xE3, CHR 0x80, CHR 0x82]"

definition risk_summary :: string where
  "risk_summary =
     [CHR 0xE8, CHR 0xAF, CHR 0xA5, CHR 0xE9, CHR 0xA1, CHR 0xB9, CHR 0xE7, CHR 0x9B, CHR 0xAE,
     CHR 0xE9, CHR 0xA3, CHR 0x8E, CHR 0xE9, CHR 0x99, CHR 0xA9, CHR 0xE8, CHR 0xBE, CHR 0x83,
     CHR 0xE4, CHR 0xBD, CHR 0x8E, CHR 0xEF, CHR 0xBC, CHR 0x8C, CHR 0xE5, CHR 0x85, CHR 0xB7,
     CHR 0xE6, CHR 0x9C, CHR 0x89, CHR 0xE7, CHR 0xA8, CHR 0xB3, CHR 0xE5, CHR 0xAE, CHR 0x9A,
     CHR 0xE7, CHR 0x9A, CHR 0x84, CHR 0xE6, CHR 0x8A, CHR 0x80, CHR 0xE6, CHR 0x9C, CHR 0xAF,
     CHR 0xE5, CHR 0x9F, CHR 0xBA, CHR 0xE7, CHR 0xA1, CHR 0x80, CHR 0xE5, CHR 0x92, CHR 0x8C,
     CHR 0xE8, CHR 0x89, CHR 0xAF, CHR 0xE5, CHR 0xA5, CHR 0xBD, CHR 0xE7, CHR 0x9A, CHR 0x84,
     CHR 0xE5, CHR 0xB8, CHR 0x82, CHR 0xE5, CHR 0x9C, CHR 0xBA, CHR 0xE5, CHR 0x89, CHR 0x8D,
     CHR 0xE6, CHR 0x99, CHR 0xAF, CHR 0xE3, CHR 0x80, CHR 0x82, CHR 0xE5, CHR 0xBB, CHR 0xBA,
     CHR 0xE8, CHR 0xAE, CHR 0xAE, CHR 0xE6, CHR 0x8A, CHR 0x95, CHR 0xE8, CHR 0xB5, CHR 0x84,
     CHR 0xE8, CHR 0x80, CHR 0x85, CHR 0xE6, CHR 0xA0, CHR 0xB9, CHR 0xE6, CHR 0x8D, CHR 0xAE,
     CHR 0xE8, CHR 0x87, CHR 0xAA, CHR 0xE8, CHR 0xBA, CHR 0xAB, CHR 0xE9, CHR 0xA3, CHR 0x8E,
     CHR 0xE9, CHR 0x99, CHR 0xA9, CHR 0xE6, CHR 0x89, CHR 0xBF, CHR 0xE5, CHR 0x8F, CHR 0x97,
     CHR 0xE8, CHR 0x83, CHR 0xBD, CHR 0xE5, CHR 0x8A, CHR 0x9B, CHR 0xE8, CHR 0xBF, CHR 0x9B,
     CHR 0xE8, CHR 0xA1, CHR 0x8C, CHR 0xE6, CHR 0x8A, CHR 0x95, CHR 0xE8, CHR 0xB5, CHR 0x84,
     CHR 0xE5, CHR 0x86, CHR 0xB3, CHR 0xE7, CHR 0xAD, CHR 0x96, CHR 0xE3, CHR 0x80, CHR 0x82]"

definition description_default :: string where
  "description_default =
     [CHR 0xE8, CHR 0xBF, CHR 0x99, CHR 0xE6, CHR 0x98, CHR 0xAF, CHR 0xE4, CHR 0xB8, CHR 0x80,
     CHR 0xE4, CHR 0xB8, CHR 0xAA] @ ''Solana'' @ [CHR 0xE7, CHR 0x94, CHR 0x9F, CHR 0xE6,
     CHR 0x80, CHR 0x81, CHR 0xE7, CHR 0xB3, CHR 0xBB, CHR 0xE7, CHR 0xBB, CHR 0x9F, CHR 0xE4,
     CHR 0xB8, CHR 0xAD, CHR 0xE7, CHR 0x9A, CHR 0x84, CHR 0xE9, CHR 0xA1, CHR 0xB9, CHR 0xE7,
     CHR 0x9B, CHR 0xAE, CHR 0xEF, CHR 0xBC, CHR 0x8C, CHR 0xE6, CHR 0x8F, CHR 0x90, CHR 0xE4,
     CHR 0xBE, CHR 0x9B, CHR 0xE5, CHR 0x88, CHR 0x9B, CHR 0xE6, CHR 0x96, CHR 0xB0, CHR 0xE7,
     CHR 0x9A, CHR 0x84, CHR 0xE5, CHR 0x8C, CHR 0xBA, CHR 0xE5, CHR 0x9D, CHR 0x97, CHR 0xE9,
     CHR 0x93, CHR 0xBE, CHR 0xE8, CHR 0xA7, CHR 0xA3, CHR 0xE5, CHR 0x86, CHR 0xB3, CHR 0xE6,
     CHR 0x96, CHR 0xB9, CHR 0xE6, CHR 0xA1, CHR 0x88, CHR 0xE3, CHR 0x80, CHR 0x82, CHR 0xE8,
     CHR 0xAF, CHR 0xA5, CHR 0xE9, CHR 0xA1, CHR 0xB9, CHR 0xE7, CHR 0x9B, CHR 0xAE, CHR 0xE4,
     CHR 0xB8, CHR 0x93, CHR 0xE6, CHR 0xB3, CHR 0xA8, CHR 0xE4, CHR 0xBA, CHR 0x8E, CHR 0xE6,
     CHR 0x8F, CHR 0x90, CHR 0xE9, CHR 0xAB, CHR 0x98, CHR 0xE5, CHR 0x8C, CHR 0xBA, CHR 0xE5,
     CHR 0x9D, CHR 0x97, CHR 0xE9, CHR 0x93, CHR 0xBE, CHR 0xE7, CHR 0x9A, CHR 0x84, CHR 0xE5,
     CHR 0x8F, CHR 0xAF, CHR 0xE6, CHR 0x89, CHR 0xA9, CHR 0xE5, CHR 0xB1, CHR 0x95, CHR 0xE6,
     CHR 0x80, CHR 0xA7, CHR 0xE5, CHR 0x92, CHR 0x8C, CHR 0xE5, CHR 0xAE, CHR 0x89, CHR 0xE5,
     CHR 0x85, CHR 0xA8, CHR 0xE6, CHR 0x80, CHR 0xA7, CHR 0xEF, CHR 0xBC, CHR 0x8C, CHR 0xE4,
     CHR 0xB8, CHR 0xBA, CHR 0xE5, CHR 0x8E, CHR 0xBB, CHR 0xE4, CHR 0xB8, CHR 0xAD, CHR 0xE5,
     CHR 0xBF, CHR 0x83, CHR 0xE5, CHR 0x8C, CHR 0x96, CHR 0xE5, CHR 0xBA, CHR 0x94, CHR 0xE7,
     CHR 0x94, CHR 0xA8, CHR 0xE6, CHR 0x8F, CHR 0x90, CHR 0xE4, CHR 0xBE, CHR 0x9B, CHR 0xE6,
     CHR 0x9B, CHR 0xB4, CHR 0xE5, CHR 0xA5, CHR 0xBD, CHR 0xE7, CHR 0x9A, CHR 0x84, CHR 0xE5,
     CHR 0x9F, CHR 0xBA, CHR 0xE7, CHR 0xA1, CHR 0x80, CHR 0xE8, CHR 0xAE, CHR 0xBE, CHR 0xE6,
     CHR 0x96, CHR 0xBD, CHR 0xE3, CHR 0x80, CHR 0x82]"

definition project_descriptions :: "(string \<times> string) list" where
  "project_descriptions =
     [(''Solana'', description_solana), (''Serum'', description_serum),
      (''Raydium'', description_raydium), (''Marinade Finance'', description_marinade),
      (''Star Atlas'', description_star)]"

definition project_categories :: "(string \<times> string) list" where
  "project_categories =
     [(''Solana'', ''Layer 1''), (''Serum'', ''DEX''), (''Raydium'', ''AMM''),
      (''Marinade Finance'', ''Staking''), (''Star Atlas'', ''GameFi'')]"

definition project_tokens :: "(string \<times> string) list" where
  "project_tokens =
     [(''Solana'', ''SOL''), (''Serum'', ''SRM''), (''Raydium'', ''RAY''),
      (''Marinade Finance'', ''MNDE''), (''Star Atlas'', ''ATLAS'')]"

definition project_links :: "(string \<times> string \<times> string \<times> string) list" where
  "project_links =
     [(''Solana'', ''https://solana.com'', ''https://twitter.com/solana'',
         ''https://github.com/solana-labs''),
      (''Serum'', ''https://projectserum.com'', ''https://twitter.com/projectserum'',
         ''https://github.com/project-serum''),
      (''Raydium'', ''https://raydium.io'', ''https://twitter.com/raydiumprotocol'',
         ''https://github.com/raydium-io''),
      (''Marinade Finance'', ''https://marinade.finance'', ''https://twitter.com/marinadefinance'',
         ''https://github.com/marinade-finance''),
      (''Star Atlas'', ''https://staratlas.com'', ''https://twitter.com/staratlasgame'',
         ''https://github.com/star-atlas'')]"

text \<open>
  \<open>enhanceProjectData\<close>; \<open>random k\<close> is the \<open>k\<close>-th value of \<open>Math.random()\<close> in
  the call (the first, \<open>random 0\<close>, goes into the launch date). \<open>links[name]?.website\<close>
  is undefined for a name without an entry, also for an inherited one, and \<open>|| ''\<close>
  makes it the empty text.
\<close>

definition enhanceProjectData :: "(nat \<Rightarrow> real) \<Rightarrow> Project \<Rightarrow> ProjectDetail" where
  "enhanceProjectData random baseProject =
     (let price = random 1 * 1000 + 1;
          marketCap = random 2 * 10000000000 + 100000000;
          volume24h = random 3 * 1000000000 + 10000000;
          circulatingSupply = random 4 * 10000000000 + 100000000;
          high24h = price * (1 + random 5 * 0.1);
          low24h = price * (1 - random 6 * 0.1);
          change7d = toFixed2 (random 7 * 30 - 10)
      in \<lparr>pd_id = proj_id baseProject,
          pd_name = proj_name baseProject,
          pd_category = lookup_or project_categories (proj_name baseProject) ''Other'',
          pd_score = score baseProject,
          pd_change = change baseProject,
          pd_description =
            lookup_or project_descriptions (proj_name baseProject) description_other,
          pd_token = lookup_or project_tokens (proj_name baseProject) ''TOKEN'',
          pd_website =
            (case map_of project_links (proj_name baseProject) of
               Some (w, t, g) \<Rightarrow> w | None \<Rightarrow> []),
          pd_twitter =
            (case map_of project_links (proj_name baseProject) of
               Some (w, t, g) \<Rightarrow> t | None \<Rightarrow> []),
          pd_github =
            (case map_of project_links (proj_name baseProject) of
               Some (w, t, g) \<Rightarrow> g | None \<Rightarrow> []),
          marketData = Some
            \<lparr>md_price = price, md_marketCap = marketCap, md_volume24h = volume24h,
             md_circulatingSupply = circulatingSupply, md_high24h = high24h,
             md_low24h = low24h, md_change7d = change7d\<rparr>,
          development = Some
            \<lparr>dev_activity = \<lfloor>random 8 * 50\<rfloor> + 30, dev_developers = \<lfloor>random 9 * 40\<rfloor> + 20,
             dev_codeQuality = \<lfloor>random 10 * 60\<rfloor> + 40,
             dev_documentation = \<lfloor>random 11 * 70\<rfloor> + 20\<rparr>,
          community = Some
            \<lparr>com_socialMedia = \<lfloor>random 12 * 60\<rfloor> + 20, com_engagement = \<lfloor>random 13 * 50\<rfloor> + 30,
             com_growth = \<lfloor>random 14 * 70\<rfloor> + 10, com_support = \<lfloor>random 15 * 60\<rfloor> + 30\<rparr>,
          risk = Some
            \<lparr>risk_market = \<lfloor>random 16 * 3\<rfloor> + 1, risk_technical = \<lfloor>random 17 * 2\<rfloor> + 1,
             risk_regulatory = \<lfloor>random 18 * 3\<rfloor> + 1, risk_summary_text = risk_summary\<rparr>\<rparr>)"

definition generateDefaultProject :: ProjectDetail where
  "generateDefaultProject =
     \<lparr>pd_id = ''default'', pd_name = ''Solana Project'', pd_category = JStr ''Layer 1'',
      pd_score = 85, pd_change = 5.2, pd_description = JStr description_default,
      pd_token = JStr ''SOL'', pd_website = ''https://example.com'',
      pd_twitter = ''https://twitter.com/example'', pd_github = ''https://github.com/example'',
      marketData = Some
        \<lparr>md_price = 100.50, md_marketCap = 40000000000, md_volume24h = 2000000000,
         md_circulatingSupply = 400000000, md_high24h = 105.25, md_low24h = 98.75,
         md_change7d = 8.5\<rparr>,
      development = Some
        \<lparr>dev_activity = 75, dev_developers = 60, dev_codeQuality = 80, dev_documentation = 70\<rparr>,
      community = Some
        \<lparr>com_socialMedia = 85, com_engagement = 70, com_growth = 65, com_support = 75\<rparr>,
      risk = Some
        \<lparr>risk_market = 2, risk_technical = 1, risk_regulatory = 2,
         risk_summary_text = risk_summary\<rparr>\<rparr>"

text \<open>
  \<open>generateRelatedProjects\<close> sorts with a random comparator; \<open>shuffle\<close> stands for
  that reordering.
\<close>

definition generateRelatedProjects :: "(Project list \<Rightarrow> Project list) \<Rightarrow> ProjectDetail \<Rightarrow> Project list" where
  "generateRelatedProjects shuffle baseProject =
     take 4 (shuffle
       (filter (\<lambda>p. proj_id p \<noteq> pd_id baseProject \<and> proj_name p \<noteq> pd_name baseProject)
          (getHotProjects 5)))"

record project_view_state =
  pv_isLoading :: bool
  pv_error :: string
  project :: "ProjectDetail option"
  relatedProjects :: "Project list"
  timeRange :: string

definition initial_project_view_state :: project_view_state where
  "initial_project_view_state =
     \<lparr>pv_isLoading = False, pv_error = [], project = None, relatedProjects = [],
      timeRange = ''30d''\<rparr>"

definition msg_project_detail_failed :: string where
  "msg_project_detail_failed =
     [CHR 0xE8, CHR 0x8E, CHR 0xB7, CHR 0xE5, CHR 0x8F, CHR 0x96, CHR 0xE9, CHR 0xA1, CHR 0xB9,
      CHR 0xE7, CHR 0x9B, CHR 0xAE, CHR 0xE8, CHR 0xAF, CHR 0xA6, CHR 0xE6, CHR 0x83, CHR 0x85,
      CHR 0xE5, CHR 0xA4, CHR 0xB1, CHR 0xE8, CHR 0xB4, CHR 0xA5]"

text \<open>
  \<open>loadProjectDetail\<close>: \<open>projectId\<close> is the route parameter, \<open>reply\<close> the outcome of
  \<open>getHotProjects(10)\<close>. After the project is set the function calls
  \<open>generatePriceChart\<close> and \<open>generateVolumeChart\<close>, still inside the \<open>try\<close>. Each
  returns at once when its element is absent (\<open>priceChartMounted\<close>,
  \<open>volumeChartMounted\<close> say whether it is there) and otherwise reads
  \<open>project.value.marketData.price\<close> or \<open>.volume24h\<close>, which throws when the project
  has no \<open>marketData\<close>; what they draw is not part of this state.
\<close>

definition loadProjectDetail ::
  "(Project list \<Rightarrow> Project list) \<Rightarrow> (nat \<Rightarrow> real) \<Rightarrow> bool \<Rightarrow> bool \<Rightarrow> project_view_state
     \<Rightarrow> string \<Rightarrow> fetch_error + Project list \<Rightarrow> project_view_state" where
  "loadProjectDetail shuffle random priceChartMounted volumeChartMounted st projectId reply =
     (let st = st\<lparr>pv_isLoading := True, pv_error := []\<rparr> in
      case reply of
        Inr projects \<Rightarrow>
          (let shown =
                 (case find (\<lambda>p. proj_id p = projectId) projects of
                    Some foundProject \<Rightarrow> enhanceProjectData random foundProject
                  | None \<Rightarrow>
                      (case projects of
                         p # _ \<Rightarrow> enhanceProjectData random p
                       | [] \<Rightarrow> generateDefaultProject));
               st = st\<lparr>project := Some shown\<rparr>;
               st = st\<lparr>relatedProjects := generateRelatedProjects shuffle shown\<rparr>
           in if (priceChartMounted \<or> volumeChartMounted) \<and> marketData shown = None
              then st\<lparr>pv_error := msg_project_detail_failed, pv_isLoading := False\<rparr>
              else st\<lparr>pv_isLoading := False\<rparr>)
      | Inl err \<Rightarrow> st\<lparr>pv_error := msg_project_detail_failed, pv_isLoading := False\<rparr>)"

text \<open>
  What the project template needs: it shows a spinner while loading, else the error
  text if there is one, else the project, reading fields of its four parts, else a
  "not found" text.
\<close>

definition project_template_renders :: "project_view_state \<Rightarrow> bool" where
  "project_template_renders st =
     (if pv_isLoading st then True
      else if pv_error st \<noteq> [] then True
      else (case project st of
              Some p \<Rightarrow> marketData p \<noteq> None \<and> development p \<noteq> None
                       \<and> community p \<noteq> None \<and> risk p \<noteq> None
            | None \<Rightarrow> True))"

text \<open>
  The signal detail view. For the signal it shows, the view generates related assets,
  technical indicators, a market sentiment and historical signals from \<open>Math.random()\<close>;
  \<open>generate\<close> stands for the four generators together, applied to the signal's asset,
  and \<open>generated\<close> is \<open>None\<close> as long as the four refs hold their initial values
  (the market sentiment is then null). When no signal has the route's id the view takes
  the first fetched signal; when nothing was fetched it leaves \<open>signal\<close> as it is. The
  template shows the signal when there is one, reading \<open>marketSentiment.score\<close>, and
  otherwise a "signal does not exist" text.
\<close>

record 'g signal_view_state =
  sv_isLoading :: bool
  sv_error :: string
  signal :: "Signal option"
  generated :: "'g option"

definition initial_signal_view_state :: "'g signal_view_state" where
  "initial_signal_view_state =
     \<lparr>sv_isLoading = False, sv_error = [], signal = None, generated = None\<rparr>"

definition msg_signal_detail_failed :: string where
  "msg_signal_detail_failed =
     [CHR 0xE8, CHR 0x8E, CHR 0xB7, CHR 0xE5, CHR 0x8F, CHR 0x96, CHR 0xE4, CHR 0xBF, CHR 0xA1,
      CHR 0xE5, CHR 0x8F, CHR 0xB7, CHR 0xE8, CHR 0xAF, CHR 0xA6, CHR 0xE6, CHR 0x83, CHR 0x85,
      CHR 0xE5, CHR 0xA4, CHR 0xB1, CHR 0xE8, CHR 0xB4, CHR 0xA5]"

definition loadSignalDetail ::
  "(string \<Rightarrow> 'g) \<Rightarrow> 'g signal_view_state \<Rightarrow> string \<Rightarrow> fetch_error + Signal list \<Rightarrow> 'g signal_view_state" where
  "loadSignalDetail generate st signalId reply =
     (let st = st\<lparr>sv_isLoading := True, sv_error := []\<rparr> in
      case reply of
        Inr signals \<Rightarrow>
          (let st =
                 (case find (\<lambda>s. sig_id s = signalId) signals of
                    Some foundSignal \<Rightarrow>
                      st\<lparr>signal := Some foundSignal, generated := Some (generate (asset foundSignal))\<rparr>
                  | None \<Rightarrow>
                      (case signals of
                         s # _ \<Rightarrow> st\<lparr>signal := Some s, generated := Some (generate (asset s))\<rparr>
                       | [] \<Rightarrow> st))
           in st\<lparr>sv_isLoading := False\<rparr>)
      | Inl err \<Rightarrow> st\<lparr>sv_error := msg_signal_detail_failed, sv_isLoading := False\<rparr>)"

definition signal_template_renders :: "'g signal_view_state \<Rightarrow> bool" where
  "signal_template_renders st =
     (if sv_isLoading st then True
      else if sv_error st \<noteq> [] then True
      else (case signal st of Some s \<Rightarrow> generated st \<noteq> None | None \<Rightarrow> True))"

section \<open>Charts\<close>

text \<open>
  The element tree a chart function leaves in its container. An element has a tag, a
  class, a text and children; positions, sizes and colours (attributes) are not modelled.
  A container is the element a template ref points to, with its width and its children.
\<close>

datatype elem = Elem (el_tag: string) (el_class: string) (el_text: string) (el_kids: "elem list")

record container =
  clientWidth :: real
  childNodes :: "elem list"

text \<open>
  What the charts take from outside the repository: \<open>scaleTicks a b count\<close> is
  \<open>scale.ticks(count)\<close> of a linear scale with domain \<open>[a, b]\<close> (no count given:
  \<open>None\<close>), \<open>defaultTickFormat\<close> the text d3 gives a tick value when the chart sets no
  format, \<open>toFixed x digits\<close> is \<open>x.toFixed(digits)\<close>.
\<close>

record chart_lib =
  scaleTicks :: "real \<Rightarrow> real \<Rightarrow> nat option \<Rightarrow> real list"
  defaultTickFormat :: "real \<Rightarrow> string"
  toFixed :: "real \<Rightarrow> nat \<Rightarrow> string"

text \<open>
  \<open>d3.max\<close> of a list (undefined for the empty list), and the domain of a band scale:
  the values in order, each at its first occurrence.
\<close>

fun d3max :: "real list \<Rightarrow> real option" where
  "d3max [] = None"
| "d3max (x # xs) = Some (fold max xs x)"

definition bandDomain :: "string list \<Rightarrow> string list" where
  "bandDomain values = fold (\<lambda>v domain. if v \<in> set domain then domain else domain @ [v]) values []"

text \<open>
  An axis fills its group with the domain path followed by one \<open>g.tick\<close> per tick,
  each holding a line and the label text.
\<close>

definition tickElem :: "string \<Rightarrow> elem" where
  "tickElem label = Elem ''g'' ''tick'' [] [Elem ''line'' [] [] [], Elem ''text'' [] label []]"

definition axis :: "string list \<Rightarrow> elem list" where
  "axis labels = Elem ''path'' ''domain'' [] [] # map tickElem labels"

definition isTick :: "elem \<Rightarrow> bool" where
  "isTick e = (el_tag e = ''g'' \<and> el_class e = ''tick'')"

text \<open>
  \<open>selectAll('g.tick').each(function(_, i) { if (i % k !== 0) d3.select(this).remove() })\<close>:
  the ticks are numbered from 0 in document order. When the charts call it the only
  ticks in the container are the children of the horizontal axis group.
\<close>

fun removeTicks :: "nat \<Rightarrow> nat \<Rightarrow> elem list \<Rightarrow> elem list" where
  "removeTicks k i [] = []"
| "removeTicks k i (e # es) =
     (if isTick e then
        (if i mod k \<noteq> 0 then removeTicks k (Suc i) es else e # removeTicks k (Suc i) es)
      else e # removeTicks k i es)"

definition thinTicks :: "nat \<Rightarrow> elem list \<Rightarrow> elem list" where
  "thinTicks n axisKids =
     (if n > 30 then removeTicks 3 0 axisKids
      else if n > 14 then removeTicks 2 0 axisKids
      else axisKids)"

record NftTrendData =
  nt_date :: string
  nt_volume :: real
  nt_floor_price :: real

text \<open>
  \<open>initVolumeChart\<close> and \<open>initFloorPriceChart\<close> of the NFT view.
  \<open>selectAll('*').remove()\<close> empties the container; \<open>append('svg')\<close> adds the svg
  after whatever the container holds then. The axes, bars and dots are appended to the
  svg in the order of the source.
\<close>

definition initVolumeChart :: "chart_lib \<Rightarrow> container option \<Rightarrow> NftTrendData list \<Rightarrow> container option" where
  "initVolumeChart lib volumeChartRef trendData =
     (case volumeChartRef of
        None \<Rightarrow> None
      | Some container \<Rightarrow>
          if trendData = [] then Some container
          else
            (let container = container\<lparr>childNodes := []\<rparr>;
                 x_domain = bandDomain (map nt_date trendData);
                 y_top = (case d3max (map nt_volume trendData) of
                            None \<Rightarrow> 1 | Some m \<Rightarrow> if m = 0 then 1 else m);
                 xAxis = axis x_domain;
                 xAxis = thinTicks (length trendData) xAxis;
                 yAxis = axis (map (\<lambda>d. ''$'' @ toFixed lib (d / 1000000) 0 @ ''M'')
                                (scaleTicks lib 0 y_top (Some 5)));
                 bars = map (\<lambda>d. Elem ''rect'' ''bar'' [] []) trendData
             in Some (container\<lparr>childNodes := childNodes container @
                  [Elem ''svg'' [] [] ([Elem ''g'' [] [] xAxis, Elem ''g'' [] [] yAxis] @ bars)]\<rparr>)))"

definition initFloorPriceChart :: "chart_lib \<Rightarrow> container option \<Rightarrow> NftTrendData list \<Rightarrow> container option" where
  "initFloorPriceChart lib floorPriceChartRef trendData =
     (case floorPriceChartRef of
        None \<Rightarrow> None
      | Some container \<Rightarrow>
          if trendData = [] then Some container
          else
            (let container = container\<lparr>childNodes := []\<rparr>;
                 x_domain = bandDomain (map nt_date trendData);
                 y_top = (case d3max (map nt_floor_price trendData) of
                            None \<Rightarrow> 1 | Some m \<Rightarrow> if m = 0 then 1 else m);
                 xAxis = axis x_domain;
                 xAxis = thinTicks (length trendData) xAxis;
                 yAxis = axis (map (\<lambda>d. toFixed lib d 2 @ '' SOL'')
                                (scaleTicks lib 0 y_top (Some 5)));
                 line = Elem ''path'' [] [] [];
                 dots = map (\<lambda>d. Elem ''circle'' ''dot'' [] []) trendData
             in Some (container\<lparr>childNodes := childNodes container @
                  [Elem ''svg'' [] []
                     ([Elem ''g'' [] [] xAxis, Elem ''g'' [] [] yAxis, line] @ dots)]\<rparr>)))"

text \<open>
  \<open>initSignalTrendChart\<close> of the dashboard: it returns only when its element is absent,
  draws inside an inner group, and ends with a title (the UTF-8 text of the five
  characters of the source).
\<close>

definition title_daily_signals :: string where
  "title_daily_signals =
     [CHR 0xE6, CHR 0xAF, CHR 0x8F, CHR 0xE6, CHR 0x97, CHR 0xA5, CHR 0xE4, CHR 0xBF, CHR 0xA1,
      CHR 0xE5, CHR 0x8F, CHR 0xB7, CHR 0xE6, CHR 0x95, CHR 0xB0]"

definition initSignalTrendChart :: "chart_lib \<Rightarrow> container option \<Rightarrow> DashChartData list \<Rightarrow> container option" where
  "initSignalTrendChart lib signalTrendChart data =
     (case signalTrendChart of
        None \<Rightarrow> None
      | Some container \<Rightarrow>
          (let container = container\<lparr>childNodes := []\<rparr>;
               x_domain = bandDomain (map dc_date data);
               y_top = (case d3max (map (\<lambda>d. real_of_int (dc_signals d)) data) of
                          None \<Rightarrow> 100 | Some m \<Rightarrow> if m = 0 then 100 else m);
               xAxis = axis x_domain;
               yAxis = axis (map (defaultTickFormat lib) (scaleTicks lib 0 y_top None));
               bars = map (\<lambda>d. Elem ''rect'' ''bar'' [] []) data;
               title = Elem ''text'' [] title_daily_signals []
           in Some (container\<lparr>childNodes := childNodes container @
                [Elem ''svg'' [] []
                   [Elem ''g'' [] [] ([Elem ''g'' [] [] xAxis, Elem ''g'' [] [] yAxis] @ bars @ [title])]]\<rparr>)))"

text \<open>
  Reading a drawn chart: the number of elements below a container, the elements of a
  class, and the tick labels of the horizontal axis (the first group of the svg).
\<close>

fun countElems :: "elem \<Rightarrow> nat" where
  "countElems (Elem t c x ks) = Suc (sum_list (map countElems ks))"

definition primitives :: "container option \<Rightarrow> nat" where
  "primitives c = (case c of None \<Rightarrow> 0 | Some container \<Rightarrow> sum_list (map countElems (childNodes container)))"

definition tickTexts :: "elem list \<Rightarrow> string list" where
  "tickTexts es =
     concat (map (\<lambda>e. if isTick e then map el_text (filter (\<lambda>t. el_tag t = ''text'') (el_kids e)) else []) es)"

definition xAxisLabels :: "container option \<Rightarrow> string list" where
  "xAxisLabels c =
     (case c of
        Some container \<Rightarrow>
          (case childNodes container of
             [Elem t c x (Elem t' c' x' axisKids # rest)] \<Rightarrow> tickTexts axisKids
           | _ \<Rightarrow> [])
      | None \<Rightarrow> [])"

text \<open>A tick source and formats for worked examples.\<close>

definition sample_lib :: chart_lib where
  "sample_lib =
     \<lparr>scaleTicks = (\<lambda>a b count. [a, b]),
      defaultTickFormat = (\<lambda>d. showNat (nat \<lfloor>d\<rfloor>)),
      toFixed = (\<lambda>d digits. showNat (nat \<lfloor>d\<rfloor>))\<rparr>"

definition sample_trend :: "nat \<Rightarrow> NftTrendData list" where
  "sample_trend n = map (\<lambda>i. \<lparr>nt_date = showNat i, nt_volume = 1000000, nt_floor_price = 1\<rparr>) [0..<n]"

section \<open>Properties of the string functions\<close>

lemma includes_Nil [simp]: "js_includes s [] = True"
  by (cases s) simp_all

lemma toLowerCase_Nil [simp]: "toLowerCase [] = []"
  by (simp add: toLowerCase_def)

section \<open>Unset filter fields\<close>

text \<open>
  C4. With the search term empty and the category empty (the "all categories" option),
  \<open>filteredCollections\<close> and \<open>filteredProtocols\<close> return the whole collection
  unchanged; an empty search term alone leaves only the category test, and an empty
  category alone leaves only the text test.
\<close>

theorem filter_unset_passthrough:
  "filteredCollections cs [] [] = cs
   \<and> filteredProtocols ps [] [] = ps
   \<and> filteredCollections cs [] cat = filter (\<lambda>c. nft_category c = cat \<or> cat = []) cs
   \<and> filteredProtocols ps [] cat = filter (\<lambda>p. defi_category p = cat \<or> cat = []) ps
   \<and> filteredCollections cs q [] =
       filter (\<lambda>c. js_includes (toLowerCase (nft_name c)) (toLowerCase q)) cs
   \<and> filteredProtocols ps q [] =
       filter (\<lambda>p. js_includes (toLowerCase (defi_name p)) (toLowerCase q)) ps"
  by (auto simp: filteredCollections_def filteredProtocols_def intro: filter_cong)

lemma startsWith_iff: "startsWith s q \<longleftrightarrow> (\<exists>post. s = q @ post)"
  by (induction s q rule: startsWith.induct) auto

text \<open>\<open>js_includes s q\<close> holds exactly when \<open>q\<close> is a contiguous part of \<open>s\<close>.\<close>

lemma js_includes_iff: "js_includes s q \<longleftrightarrow> (\<exists>pre post. s = pre @ q @ post)"
proof (induction s)
  case Nil
  then show ?case by auto
next
  case (Cons c cs)
  show ?case
  proof
    assume "js_includes (c # cs) q"
    then consider "startsWith (c # cs) q" | "js_includes cs q" by auto
    then show "\<exists>pre post. c # cs = pre @ q @ post"
    proof cases
      case 1
      then obtain post where "c # cs = q @ post" by (auto simp: startsWith_iff)
      then have "c # cs = [] @ q @ post" by simp
      then show ?thesis by blast
    next
      case 2
      then obtain pre post where "cs = pre @ q @ post" using Cons.IH by auto
      then have "c # cs = (c # pre) @ q @ post" by simp
      then show ?thesis by blast
    qed
  next
    assume "\<exists>pre post. c # cs = pre @ q @ post"
    then obtain pre post where e: "c # cs = pre @ q @ post" by auto
    show "js_includes (c # cs) q"
    proof (cases pre)
      case Nil
      with e have "startsWith (c # cs) q" by (auto simp: startsWith_iff)
      then show ?thesis by simp
    next
      case (Cons p pre')
      with e have "cs = pre' @ q @ post" by simp
      then have "js_includes cs q" using Cons.IH by auto
      then show ?thesis by simp
    qed
  qed
qed

section \<open>Order and purity of the filters\<close>

lemma filteredSignals_result:
  "signals < length h \<Longrightarrow>
   snd (filteredSignals h signals q t) ! fst (filteredSignals h signals q t)
     = sort_key (\<lambda>s. - timestamp s) (filter (signalMatches q t) (h ! signals))"
  apply (simp add: filteredSignals_def arr_spread_def arr_filter_def arr_sort_key_def alloc_def
      Let_def nth_append split: prod.splits)
  apply (intro conjI impI arg_cong[where f="sort_key _"] filter_cong; simp add: signalMatches_def)
  done

lemma sorted_filtered_subseq:
  "subseq (sort_key k (filter P xs)) xs = sorted (map k (filter P xs))"
proof
  assume "sorted (map k (filter P xs))"
  then have "sort_key k (filter P xs) = filter P xs" by (rule sort_key_id_if_sorted)
  then show "subseq (sort_key k (filter P xs)) xs" by simp
next
  let ?r = "sort_key k (filter P xs)"
  assume "subseq ?r xs"
  then have "subseq (filter P ?r) (filter P xs)" by (rule subseq_filter)
  moreover have "filter P ?r = ?r" by (simp add: filter_id_conv)
  ultimately have "subseq ?r (filter P xs)" by simp
  moreover have "length ?r = length (filter P xs)" by simp
  ultimately have "?r = filter P xs" by (rule subseq_same_length)
  moreover have "sorted (map k ?r)" by (rule sorted_sort_key)
  ultimately show "sorted (map k (filter P xs))" by simp
qed

lemma filteredSignals_keeps:
  "signals < length h \<Longrightarrow> snd (filteredSignals h signals q t) ! signals = h ! signals"
  by (simp add: filteredSignals_def arr_spread_def arr_filter_def arr_sort_key_def alloc_def
      Let_def nth_append split: prod.splits)

text \<open>
  C5 as stated fails for \<open>filteredSignals\<close>: after filtering it sorts the result by
  time, newest first, so two signals stored oldest first come out in the other order and
  the result is not a subsequence of the input.
\<close>

theorem filteredSignals_reorders:
  "\<not> subseq
     (snd (filteredSignals
        [[\<lparr>sig_id = ''1'', asset = ''BTC'', sig_type = ''trend'', strength = 85, timestamp = 1000\<rparr>,
          \<lparr>sig_id = ''2'', asset = ''ETH'', sig_type = ''momentum'', strength = 72,
            timestamp = 2000\<rparr>]] 0 [] ''all'')
      ! fst (filteredSignals
        [[\<lparr>sig_id = ''1'', asset = ''BTC'', sig_type = ''trend'', strength = 85, timestamp = 1000\<rparr>,
          \<lparr>sig_id = ''2'', asset = ''ETH'', sig_type = ''momentum'', strength = 72,
            timestamp = 2000\<rparr>]] 0 [] ''all''))
     [\<lparr>sig_id = ''1'', asset = ''BTC'', sig_type = ''trend'', strength = 85, timestamp = 1000\<rparr>,
      \<lparr>sig_id = ''2'', asset = ''ETH'', sig_type = ''momentum'', strength = 72, timestamp = 2000\<rparr>]"
  by (simp add: filteredSignals_def arr_spread_def arr_filter_def arr_sort_key_def alloc_def
      Let_def)

text \<open>
  C5, amended. \<open>filteredProtocols\<close> and \<open>filteredCollections\<close> return a subsequence of
  their input in the original order. \<open>filteredSignals\<close> returns the matching signals
  sorted by time, newest first (stable); its result is a subsequence of the input exactly
  when the matching signals are already stored newest first, which is so whenever the
  whole input is stored newest first. Each result is determined by the contents of the
  input array and the two filter fields alone, and the input array in the store is the
  same after the call.
\<close>

theorem filter_subsequence_or_sorted:
  assumes "protocols < length g" and "signals < length h"
  shows "subseq (filteredProtocols ps q c) ps
    \<and> subseq (filteredCollections cs q c) cs
    \<and> snd (filteredProtocols_in g protocols q c) ! fst (filteredProtocols_in g protocols q c)
        = filteredProtocols (g ! protocols) q c
    \<and> snd (filteredProtocols_in g protocols q c) ! protocols = g ! protocols
    \<and> snd (filteredSignals h signals sq ft) ! fst (filteredSignals h signals sq ft)
        = sort_key (\<lambda>s. - timestamp s) (filter (signalMatches sq ft) (h ! signals))
    \<and> snd (filteredSignals h signals sq ft) ! signals = h ! signals
    \<and> (sorted (map (\<lambda>s. - timestamp s) (h ! signals)) \<longrightarrow>
         subseq (snd (filteredSignals h signals sq ft) ! fst (filteredSignals h signals sq ft))
           (h ! signals))
    \<and> subseq (snd (filteredSignals h signals sq ft) ! fst (filteredSignals h signals sq ft))
           (h ! signals)
       = sorted (map (\<lambda>s. - timestamp s) (filter (signalMatches sq ft) (h ! signals)))"
proof -
  have a: "subseq (filteredProtocols ps q c) ps"
    by (simp add: filteredProtocols_def)
  have b: "subseq (filteredCollections cs q c) cs"
    by (simp add: filteredCollections_def)
  have c: "snd (filteredProtocols_in g protocols q c) ! fst (filteredProtocols_in g protocols q c)
        = filteredProtocols (g ! protocols) q c"
    by (simp add: filteredProtocols_in_def alloc_def)
  have d: "snd (filteredProtocols_in g protocols q c) ! protocols = g ! protocols"
    using assms(1) by (simp add: filteredProtocols_in_def alloc_def nth_append)
  note e = filteredSignals_result [OF assms(2), of sq ft]
  note f = filteredSignals_keeps [OF assms(2), of sq ft]
  have g: "subseq (snd (filteredSignals h signals sq ft) ! fst (filteredSignals h signals sq ft))
           (h ! signals)" if s: "sorted (map (\<lambda>s. - timestamp s) (h ! signals))"
  proof -
    have "sorted (map (\<lambda>s. - timestamp s) (filter (signalMatches sq ft) (h ! signals)))"
      using s by (rule sorted_filter)
    then have "sort_key (\<lambda>s. - timestamp s) (filter (signalMatches sq ft) (h ! signals))
        = filter (signalMatches sq ft) (h ! signals)"
      by (rule sort_key_id_if_sorted)
    then show ?thesis by (simp add: e)
  qed
  have i: "subseq (snd (filteredSignals h signals sq ft) ! fst (filteredSignals h signals sq ft))
           (h ! signals)
       = sorted (map (\<lambda>s. - timestamp s) (filter (signalMatches sq ft) (h ! signals)))"
    unfolding e by (rule sorted_filtered_subseq)
  from a b c d e f g i show ?thesis by blast
qed

theorem filter_subsequence_or_sorted_witness:
  "(0::nat) < length [getDefiProtocols] \<and> (0::nat) < length [getRecentSignals 7200000 50]
   \<and> subseq (filteredProtocols getDefiProtocols ''sol'' []) getDefiProtocols
   \<and> sorted (map (\<lambda>s. - timestamp s) ([getRecentSignals 7200000 50] ! 0))
   \<and> subseq (snd (filteredSignals [getRecentSignals 7200000 50] 0 ''o'' ''all'')
               ! fst (filteredSignals [getRecentSignals 7200000 50] 0 ''o'' ''all''))
        ([getRecentSignals 7200000 50] ! 0)
   \<and> snd (filteredSignals [getRecentSignals 7200000 50] 0 ''o'' ''all'') ! 0
        = [getRecentSignals 7200000 50] ! 0"
proof -
  have p: "(0::nat) < length [getDefiProtocols]" by simp
  have s: "(0::nat) < length [getRecentSignals 7200000 50]" by simp
  have srt: "sorted (map (\<lambda>s. - timestamp s) ([getRecentSignals 7200000 50] ! 0))"
    by (simp add: getRecentSignals_def)
  note th = filter_subsequence_or_sorted [where g = "[getDefiProtocols]" and protocols = 0
      and h = "[getRecentSignals 7200000 50]" and signals = 0 and ps = getDefiProtocols
      and q = "''sol''" and c = "[]" and cs = "[]" and sq = "''o''" and ft = "''all''", OF p s]
  note a = th [THEN conjunct1]
  note f = th [THEN conjunct2, THEN conjunct2, THEN conjunct2, THEN conjunct2, THEN conjunct2,
      THEN conjunct1]
  note g = th [THEN conjunct2, THEN conjunct2, THEN conjunct2, THEN conjunct2, THEN conjunct2,
      THEN conjunct2, THEN conjunct1, THEN mp, OF srt]
  show ?thesis
    by (intro conjI) (rule p s a srt g f)+
qed

section \<open>The text filter on the service's data\<close>

text \<open>
  C8. With the search term \<open>sol\<close> and no category selected, a list of five collections
  of which exactly one has a name containing \<open>sol\<close>, letter case ignored, is filtered
  to exactly one item. The five collections of the service are such a list (only
  "Solana Monkey Business" matches).
\<close>

theorem text_filter_sol_single:
  assumes "length cs = 5"
    and "length (filter (\<lambda>c. \<exists>pre post. toLowerCase (nft_name c) = pre @ ''sol'' @ post) cs) = 1"
  shows "length (filteredCollections cs ''sol'' []) = 1"
proof -
  have l: "toLowerCase ''sol'' = ''sol''" by code_simp
  have "filteredCollections cs ''sol'' []
      = filter (\<lambda>c. \<exists>pre post. toLowerCase (nft_name c) = pre @ ''sol'' @ post) cs"
    unfolding filteredCollections_def l by (simp add: js_includes_iff)
  with assms(2) show ?thesis by simp
qed

theorem text_filter_sol_single_witness:
  "length getTopNftCollections = 5
   \<and> length (filter (\<lambda>c. \<exists>pre post. toLowerCase (nft_name c) = pre @ ''sol'' @ post)
        getTopNftCollections) = 1
   \<and> length (filteredCollections getTopNftCollections ''sol'' []) = 1"
proof -
  have n: "length getTopNftCollections = 5" by (simp add: getTopNftCollections_def)
  have "length (filter (\<lambda>c. js_includes (toLowerCase (nft_name c)) ''sol'')
        getTopNftCollections) = 1"
    by code_simp
  then have m: "length (filter (\<lambda>c. \<exists>pre post. toLowerCase (nft_name c) = pre @ ''sol'' @ post)
        getTopNftCollections) = 1"
    by (simp add: js_includes_iff)
  from text_filter_sol_single [OF n m] n m show ?thesis by simp
qed

section \<open>The payment store keeps its default method listed\<close>

lemma filter_hd_mem: "filter P xs = y # ys \<Longrightarrow> y \<in> set (filter P xs)"
  by simp

lemma fetchPaymentMethods_listed:
  "default_listed st \<Longrightarrow> r \<noteq> Inr NotArray \<Longrightarrow> default_listed (fst (fetchPaymentMethods st r))"
  by (auto simp: fetchPaymentMethods_def default_listed_def Let_def find_Some_iff
      split: sum.splits option.splits methods_value.splits)

lemma fetchPaymentMethods_not_array:
  "fetchPaymentMethods st (Inr NotArray)
     = (st\<lparr>paymentMethods := NotArray, error := Some msg_fetch_methods_failed, loading := False\<rparr>,
        Inl TypeError)"
  by (simp add: fetchPaymentMethods_def error_message_def)

lemma addPaymentMethod_listed:
  "default_listed st \<Longrightarrow> default_listed (fst (addPaymentMethod st data r))"
  by (auto simp: addPaymentMethod_def default_listed_def Let_def
      split: sum.splits option.splits methods_value.splits)

lemma deletePaymentMethod_success:
  assumes "paymentMethods st = MethodList methods"
  shows "paymentMethods (fst (deletePaymentMethod st pid (Inr u)))
       = MethodList (filter (\<lambda>method. pm_id method \<noteq> Some pid) methods)
    \<and> defaultPaymentMethod (fst (deletePaymentMethod st pid (Inr u)))
       = (if Option.bind (defaultPaymentMethod st) pm_id = Some pid
          then (case filter (\<lambda>method. pm_id method \<noteq> Some pid) methods of
                  [] \<Rightarrow> None | m # _ \<Rightarrow> Some m)
          else defaultPaymentMethod st)
    \<and> snd (deletePaymentMethod st pid (Inr u)) = Inr ()"
  using assms by (simp add: deletePaymentMethod_def Let_def)

lemma deletePaymentMethod_listed:
  assumes inv: "default_listed st"
  shows "default_listed (fst (deletePaymentMethod st pid r))"
proof (cases r)
  case (Inl e)
  with inv show ?thesis
    by (auto simp: deletePaymentMethod_def default_listed_def Let_def
        split: option.splits methods_value.splits)
next
  case (Inr u)
  show ?thesis
  proof (cases "paymentMethods st")
    case NotArray
    with inv Inr show ?thesis
      by (auto simp: deletePaymentMethod_def default_listed_def Let_def split: option.splits)
  next
    case (MethodList methods)
    let ?ms = "filter (\<lambda>method. pm_id method \<noteq> Some pid) methods"
    note s = deletePaymentMethod_success [OF MethodList, of pid u]
    show ?thesis
    proof (cases "Option.bind (defaultPaymentMethod st) pm_id = Some pid")
      case True
      show ?thesis
      proof (cases ?ms)
        case Nil
        with s True Inr show ?thesis by (simp add: default_listed_def)
      next
        case (Cons x xs)
        then have "x \<in> set ?ms" by (rule filter_hd_mem)
        with s True Inr Cons show ?thesis by (simp add: default_listed_def)
      qed
    next
      case False
      with s Inr inv MethodList show ?thesis
        by (auto simp: default_listed_def split: option.splits)
    qed
  qed
qed

lemma setDefaultPaymentMethod_listed:
  "default_listed st \<Longrightarrow>
   (case r of
      Inl e \<Rightarrow> True
    | Inr u \<Rightarrow> (case paymentMethods st of
                MethodList methods \<Rightarrow> pm_id u \<in> set (map pm_id methods) | NotArray \<Rightarrow> True)) \<Longrightarrow>
   default_listed (fst (setDefaultPaymentMethod st pid r))"
  by (auto simp: setDefaultPaymentMethod_def default_listed_def Let_def image_iff
      split: sum.splits option.splits methods_value.splits)

lemma reset_listed: "default_listed (reset st)"
  by (simp add: reset_def default_listed_def)

lemma deletePaymentMethod_gone:
  "Some pid \<notin> set (map pm_id (filter (\<lambda>method. pm_id method \<noteq> Some pid) methods))"
  by auto

text \<open>
  With the api service of the repository the listing breaks at the first fetch: the
  service resolves with \<open>{}\<close>, the store keeps it as \<open>paymentMethods\<close>, throws, and
  the default of before is left with nothing listed.
\<close>

lemma fetchPaymentMethods_bundled_unlisted:
  "default_listed
     (initial_payment_state\<lparr>paymentMethods := MethodList [sample_method ''pm_1'' True],
        defaultPaymentMethod := Some (sample_method ''pm_1'' True)\<rparr>)
   \<and> \<not> default_listed
     (fst (fetchPaymentMethods
        (initial_payment_state\<lparr>paymentMethods := MethodList [sample_method ''pm_1'' True],
           defaultPaymentMethod := Some (sample_method ''pm_1'' True)\<rparr>)
        bundled_getPaymentMethods))
   \<and> snd (fetchPaymentMethods
        (initial_payment_state\<lparr>paymentMethods := MethodList [sample_method ''pm_1'' True],
           defaultPaymentMethod := Some (sample_method ''pm_1'' True)\<rparr>)
        bundled_getPaymentMethods) = Inl TypeError"
  by (simp add: default_listed_def fetchPaymentMethods_def bundled_getPaymentMethods_def
      initial_payment_state_def sample_method_def Let_def)

text \<open>
  C10 as stated fails for \<open>setDefaultPaymentMethod\<close>: the store takes the method the
  service resolves with as the new default without looking it up in the list. With one
  listed method \<open>pm_1\<close> as default, a call for \<open>pm_2\<close> that the service answers with a
  method \<open>pm_2\<close> leaves a default whose id no listed method has.
\<close>

theorem setDefaultPaymentMethod_unlisted:
  "default_listed
     (initial_payment_state\<lparr>paymentMethods := MethodList [sample_method ''pm_1'' True],
        defaultPaymentMethod := Some (sample_method ''pm_1'' True)\<rparr>)
   \<and> \<not> default_listed
     (fst (setDefaultPaymentMethod
        (initial_payment_state\<lparr>paymentMethods := MethodList [sample_method ''pm_1'' True],
           defaultPaymentMethod := Some (sample_method ''pm_1'' True)\<rparr>)
        ''pm_2'' (Inr (sample_method ''pm_2'' True))))"
  by (simp add: default_listed_def setDefaultPaymentMethod_def initial_payment_state_def
      sample_method_def Let_def)

text \<open>
  C10, amended. If the default method is absent or has the id of a listed method, the
  same holds after \<open>addPaymentMethod\<close>, \<open>deletePaymentMethod\<close> and \<open>reset\<close>,
  whatever the service answers; after \<open>fetchPaymentMethods\<close> when the service rejects
  or resolves with an array; and after \<open>setDefaultPaymentMethod\<close> when the service
  rejects or resolves with a method that has the id of a listed method. A fetch that
  resolves with a value that is not an array (the \<open>{}\<close> of the repository's api
  service) stores that value, throws a \<open>TypeError\<close> and leaves the default as it was.
  After a successful \<open>deletePaymentMethod\<close> on a list no listed method has the deleted
  id, and if the deleted id was the default's, the default is the first remaining
  method, or absent when none remains.
\<close>

theorem default_listed_preserved:
  assumes "default_listed st"
  shows "(r1 \<noteq> Inr NotArray \<longrightarrow> default_listed (fst (fetchPaymentMethods st r1)))
    \<and> default_listed (fst (addPaymentMethod st data r2))
    \<and> default_listed (fst (deletePaymentMethod st pid r3))
    \<and> default_listed (reset st)
    \<and> ((case r4 of
           Inl e \<Rightarrow> True
         | Inr u \<Rightarrow> (case paymentMethods st of
                     MethodList methods \<Rightarrow> pm_id u \<in> set (map pm_id methods)
                   | NotArray \<Rightarrow> True))
         \<longrightarrow> default_listed (fst (setDefaultPaymentMethod st pid r4)))
    \<and> fetchPaymentMethods st (Inr NotArray)
       = (st\<lparr>paymentMethods := NotArray, error := Some msg_fetch_methods_failed,
             loading := False\<rparr>, Inl TypeError)
    \<and> (paymentMethods st = MethodList ms \<longrightarrow>
         paymentMethods (fst (deletePaymentMethod st pid (Inr u)))
           = MethodList (filter (\<lambda>method. pm_id method \<noteq> Some pid) ms)
         \<and> Some pid \<notin> set (map pm_id (filter (\<lambda>method. pm_id method \<noteq> Some pid) ms))
         \<and> snd (deletePaymentMethod st pid (Inr u)) = Inr ()
         \<and> (Option.bind (defaultPaymentMethod st) pm_id = Some pid \<longrightarrow>
              defaultPaymentMethod (fst (deletePaymentMethod st pid (Inr u)))
                = (case filter (\<lambda>method. pm_id method \<noteq> Some pid) ms of
                     [] \<Rightarrow> None | m # _ \<Rightarrow> Some m)))"
proof -
  have d: "paymentMethods (fst (deletePaymentMethod st pid (Inr u)))
           = MethodList (filter (\<lambda>method. pm_id method \<noteq> Some pid) ms)
         \<and> Some pid \<notin> set (map pm_id (filter (\<lambda>method. pm_id method \<noteq> Some pid) ms))
         \<and> snd (deletePaymentMethod st pid (Inr u)) = Inr ()
         \<and> (Option.bind (defaultPaymentMethod st) pm_id = Some pid \<longrightarrow>
              defaultPaymentMethod (fst (deletePaymentMethod st pid (Inr u)))
                = (case filter (\<lambda>method. pm_id method \<noteq> Some pid) ms of
                     [] \<Rightarrow> None | m # _ \<Rightarrow> Some m))"
    if "paymentMethods st = MethodList ms"
    using deletePaymentMethod_success [OF that, of pid u] deletePaymentMethod_gone [of pid ms]
    by simp
  show ?thesis
    using assms d
    by (intro conjI impI fetchPaymentMethods_listed addPaymentMethod_listed
        deletePaymentMethod_listed reset_listed setDefaultPaymentMethod_listed
        fetchPaymentMethods_not_array) blast+
qed

theorem default_listed_preserved_witness:
  "default_listed
     (initial_payment_state\<lparr>paymentMethods :=
          MethodList [sample_method ''pm_1'' True, sample_method ''pm_2'' False],
        defaultPaymentMethod := Some (sample_method ''pm_1'' True)\<rparr>)
   \<and> default_listed
     (fst (setDefaultPaymentMethod
        (initial_payment_state\<lparr>paymentMethods :=
             MethodList [sample_method ''pm_1'' True, sample_method ''pm_2'' False],
           defaultPaymentMethod := Some (sample_method ''pm_1'' True)\<rparr>)
        ''pm_2'' (Inr (sample_method ''pm_2'' True))))
   \<and> default_listed
     (fst (fetchPaymentMethods
        (initial_payment_state\<lparr>paymentMethods :=
             MethodList [sample_method ''pm_1'' True, sample_method ''pm_2'' False],
           defaultPaymentMethod := Some (sample_method ''pm_1'' True)\<rparr>)
        (Inr (MethodList [sample_method ''pm_2'' True]))))
   \<and> defaultPaymentMethod
     (fst (deletePaymentMethod
        (initial_payment_state\<lparr>paymentMethods :=
             MethodList [sample_method ''pm_1'' True, sample_method ''pm_2'' False],
           defaultPaymentMethod := Some (sample_method ''pm_1'' True)\<rparr>)
        ''pm_1'' (Inr ()))) = Some (sample_method ''pm_2'' False)"
proof -
  let ?ms = "[sample_method ''pm_1'' True, sample_method ''pm_2'' False]"
  let ?st = "initial_payment_state\<lparr>paymentMethods := MethodList ?ms,
        defaultPaymentMethod := Some (sample_method ''pm_1'' True)\<rparr>"
  have inv: "default_listed ?st"
    by (simp add: default_listed_def initial_payment_state_def sample_method_def)
  have u: "(case (Inr (sample_method ''pm_2'' True) :: api_error + PaymentMethod) of
              Inl e \<Rightarrow> True
            | Inr u \<Rightarrow> (case paymentMethods ?st of
                        MethodList methods \<Rightarrow> pm_id u \<in> set (map pm_id methods)
                      | NotArray \<Rightarrow> True))"
    by (simp add: initial_payment_state_def sample_method_def)
  have f: "(Inr (MethodList [sample_method ''pm_2'' True]) :: api_error + methods_value)
      \<noteq> Inr NotArray"
    by simp
  have l: "paymentMethods ?st = MethodList ?ms" by simp
  have d: "Option.bind (defaultPaymentMethod ?st) pm_id = Some ''pm_1''"
    by (simp add: sample_method_def)
  note th = default_listed_preserved [OF inv, where pid = "''pm_2''"
      and ?r4.0 = "Inr (sample_method ''pm_2'' True)"
      and ?r1.0 = "Inr (MethodList [sample_method ''pm_2'' True])"]
  note th1 = default_listed_preserved [OF inv, where pid = "''pm_1''" and u = "()" and ms = ?ms]
  note a = th [THEN conjunct2, THEN conjunct2, THEN conjunct2, THEN conjunct2, THEN conjunct1,
      THEN mp, OF u]
  note b = th [THEN conjunct1, THEN mp, OF f]
  note c = th1 [THEN conjunct2, THEN conjunct2, THEN conjunct2, THEN conjunct2, THEN conjunct2,
      THEN conjunct2, THEN mp, OF l, THEN conjunct2, THEN conjunct2, THEN conjunct2,
      THEN mp, OF d]
  have c': "defaultPaymentMethod (fst (deletePaymentMethod ?st ''pm_1'' (Inr ())))
      = Some (sample_method ''pm_2'' False)"
    unfolding c by (simp add: sample_method_def)
  show ?thesis
    by (intro conjI) (rule inv a b c')+
qed

section \<open>Calendar arithmetic\<close>














section \<open>Day labels\<close>








section \<open>The generated trend series\<close>









text \<open>
  In Pacific/Apia on 1 January 2012 a series of five days has the label of 31 December
  twice and no label for the 30th, which that zone did not have.
\<close>

lemma apia_label_twice:
  "map cd_date (getSignalTrendData apia_2011 \<lparr>year = 2012, month = 0, dayOfMonth = 1\<rparr> (\<lambda>_. 0) 5)
   = [''12'' @ yue @ ''28'' @ ri, ''12'' @ yue @ ''29'' @ ri, ''12'' @ yue @ ''31'' @ ri,
      ''12'' @ yue @ ''31'' @ ri, ''1'' @ yue @ ''1'' @ ri]"
  by code_simp




section \<open>A failed load keeps what was loaded\<close>

lemma promise_all3_fails:
  "isl a \<or> isl b \<or> isl c \<Longrightarrow> isl (promise_all3 a b c)"
  by (auto simp: promise_all3_def split: sum.splits)

lemma loadData_success_loaded:
  "isDataLoaded (loadData st tz today random (Inr m) (Inr s) (Inr p)) = True
   \<and> error_data (loadData st tz today random (Inr m) (Inr s) (Inr p)) = []
   \<and> hotProjects (loadData st tz today random (Inr m) (Inr s) (Inr p)) = p
   \<and> recentSignals (loadData st tz today random (Inr m) (Inr s) (Inr p)) = s
   \<and> metrics (loadData st tz today random (Inr m) (Inr s) (Inr p)) = m"
  by (simp add: loadData_def promise_all3_def Let_def)

text \<open>
  C2 as stated fails on "the state is not marked Loaded": a refresh that fails after a
  load that succeeded leaves \<open>isDataLoaded\<close> true, next to the error message. Here the
  first load succeeds and, in the second, the fetch of the signals is rejected.
\<close>

theorem failed_refresh_stays_loaded:
  "isDataLoaded
     (loadData
        (loadData initial_dashboard_state fixed_zone \<lparr>year = 2024, month = 2, dayOfMonth = 2\<rparr>
           (\<lambda>_. 0) (Inr getDashboardMetrics) (Inr (getRecentSignals 7200000 5))
           (Inr (getHotProjects 10)))
        fixed_zone \<lparr>year = 2024, month = 2, dayOfMonth = 2\<rparr> (\<lambda>_. 0)
        (Inr getDashboardMetrics) (Inl (FetchError ''timeout'')) (Inr (getHotProjects 10)))
   \<and> error_data
     (loadData
        (loadData initial_dashboard_state fixed_zone \<lparr>year = 2024, month = 2, dayOfMonth = 2\<rparr>
           (\<lambda>_. 0) (Inr getDashboardMetrics) (Inr (getRecentSignals 7200000 5))
           (Inr (getHotProjects 10)))
        fixed_zone \<lparr>year = 2024, month = 2, dayOfMonth = 2\<rparr> (\<lambda>_. 0)
        (Inr getDashboardMetrics) (Inl (FetchError ''timeout'')) (Inr (getHotProjects 10)))
     = msg_load_failed"
  by (simp add: loadData_def promise_all3_def Let_def)

text \<open>
  C2, amended. When one of the three fetches of \<open>loadData\<close> is rejected, the resulting
  state is the state before the call with the error message set to a non-empty text and
  the loading flag off. The call does not touch \<open>isDataLoaded\<close>: a first load that fails
  is not marked loaded, and a refresh that fails stays marked loaded from the load
  before it. The metrics, signals, projects and the four series are what they were. The
  signal history view's \<open>loadSignals\<close> does the same with its own fields.
\<close>

theorem loadData_failure_keeps_data:
  assumes "isl metricsReply \<or> isl signalsReply \<or> isl projectsReply"
  shows "loadData st tz today random metricsReply signalsReply projectsReply
       = st\<lparr>error_data := msg_load_failed, isLoading_all := False\<rparr>
    \<and> error_data (loadData st tz today random metricsReply signalsReply projectsReply) \<noteq> []
    \<and> isDataLoaded (loadData st tz today random metricsReply signalsReply projectsReply)
       = isDataLoaded st
    \<and> metrics (loadData st tz today random metricsReply signalsReply projectsReply) = metrics st
    \<and> recentSignals (loadData st tz today random metricsReply signalsReply projectsReply)
       = recentSignals st
    \<and> hotProjects (loadData st tz today random metricsReply signalsReply projectsReply)
       = hotProjects st
    \<and> signalTrendData (loadData st tz today random metricsReply signalsReply projectsReply)
       = signalTrendData st
    \<and> projectActivityData (loadData st tz today random metricsReply signalsReply projectsReply)
       = projectActivityData st
    \<and> priceTrendData (loadData st tz today random metricsReply signalsReply projectsReply)
       = priceTrendData st
    \<and> volumeTrendData (loadData st tz today random metricsReply signalsReply projectsReply)
       = volumeTrendData st
    \<and> loadSignals hst (Inl err) = hst\<lparr>hs_error := msg_signals_failed, hs_isLoading := False\<rparr>
    \<and> hs_error (loadSignals hst (Inl err)) \<noteq> []
    \<and> hs_signals (loadSignals hst (Inl err)) = hs_signals hst"
proof -
  from promise_all3_fails [OF assms] obtain e where
    "promise_all3 metricsReply signalsReply projectsReply = Inl e"
    by (cases "promise_all3 metricsReply signalsReply projectsReply") auto
  then have "loadData st tz today random metricsReply signalsReply projectsReply
       = st\<lparr>error_data := msg_load_failed, isLoading_all := False\<rparr>"
    by (simp add: loadData_def)
  moreover have "loadSignals hst (Inl err)
       = hst\<lparr>hs_error := msg_signals_failed, hs_isLoading := False\<rparr>"
    by (simp add: loadSignals_def)
  ultimately show ?thesis
    by (simp add: msg_load_failed_def msg_signals_failed_def)
qed

text \<open>
  The theorem on a first load that fails, and on a refresh that fails after a load that
  succeeded: the projects of the first load are still there.
\<close>

theorem loadData_failure_keeps_data_witness:
  "(isl (Inr getDashboardMetrics :: fetch_error + DashboardMetrics)
      \<or> isl (Inl (FetchError ''timeout'') :: fetch_error + Signal list)
      \<or> isl (Inr (getHotProjects 10) :: fetch_error + Project list))
   \<and> error_data (loadData initial_dashboard_state fixed_zone
         \<lparr>year = 2024, month = 2, dayOfMonth = 2\<rparr> (\<lambda>_. 0)
         (Inr getDashboardMetrics) (Inl (FetchError ''timeout'')) (Inr (getHotProjects 10))) \<noteq> []
   \<and> isDataLoaded (loadData initial_dashboard_state fixed_zone
         \<lparr>year = 2024, month = 2, dayOfMonth = 2\<rparr> (\<lambda>_. 0)
         (Inr getDashboardMetrics) (Inl (FetchError ''timeout'')) (Inr (getHotProjects 10))) = False
   \<and> isDataLoaded
       (loadData
         (loadData initial_dashboard_state fixed_zone \<lparr>year = 2024, month = 2, dayOfMonth = 2\<rparr>
            (\<lambda>_. 0) (Inr getDashboardMetrics) (Inr (getRecentSignals 7200000 5))
            (Inr (getHotProjects 10)))
         fixed_zone \<lparr>year = 2024, month = 2, dayOfMonth = 2\<rparr> (\<lambda>_. 0)
         (Inr getDashboardMetrics) (Inl (FetchError ''timeout'')) (Inr (getHotProjects 10))) = True
   \<and> hotProjects
       (loadData
         (loadData initial_dashboard_state fixed_zone \<lparr>year = 2024, month = 2, dayOfMonth = 2\<rparr>
            (\<lambda>_. 0) (Inr getDashboardMetrics) (Inr (getRecentSignals 7200000 5))
            (Inr (getHotProjects 10)))
         fixed_zone \<lparr>year = 2024, month = 2, dayOfMonth = 2\<rparr> (\<lambda>_. 0)
         (Inr getDashboardMetrics) (Inl (FetchError ''timeout'')) (Inr (getHotProjects 10)))
       = getHotProjects 10"
proof -
  let ?today = "\<lparr>year = 2024, month = 2, dayOfMonth = 2\<rparr>"
  let ?st1 = "loadData initial_dashboard_state fixed_zone ?today (\<lambda>_. 0)
      (Inr getDashboardMetrics) (Inr (getRecentSignals 7200000 5)) (Inr (getHotProjects 10))"
  have h: "isl (Inr getDashboardMetrics :: fetch_error + DashboardMetrics)
      \<or> isl (Inl (FetchError ''timeout'') :: fetch_error + Signal list)
      \<or> isl (Inr (getHotProjects 10) :: fetch_error + Project list)"
    by simp
  note th0 = loadData_failure_keeps_data [OF h, of initial_dashboard_state fixed_zone ?today
      "\<lambda>_. 0"]
  note th1 = loadData_failure_keeps_data [OF h, of ?st1 fixed_zone ?today "\<lambda>_. 0"]
  note a = th0 [THEN conjunct2, THEN conjunct1]
  note b = th0 [THEN conjunct2, THEN conjunct2, THEN conjunct1]
  note c = th1 [THEN conjunct2, THEN conjunct2, THEN conjunct1]
  note d = th1 [THEN conjunct2, THEN conjunct2, THEN conjunct2, THEN conjunct2, THEN conjunct2,
      THEN conjunct1]
  have i0: "isDataLoaded initial_dashboard_state = False"
    by (simp add: initial_dashboard_state_def)
  have l1: "isDataLoaded ?st1 = True" and p1: "hotProjects ?st1 = getHotProjects 10"
    using loadData_success_loaded by blast+
  show ?thesis
    by (intro conjI) (rule h a b [unfolded i0] c [unfolded l1] d [unfolded p1])+
qed

section \<open>A route id that matches nothing\<close>

lemma enhanceProjectData_parts:
  "marketData (enhanceProjectData random p) \<noteq> None
   \<and> development (enhanceProjectData random p) \<noteq> None
   \<and> community (enhanceProjectData random p) \<noteq> None
   \<and> risk (enhanceProjectData random p) \<noteq> None
   \<and> pd_id (enhanceProjectData random p) = proj_id p
   \<and> pd_name (enhanceProjectData random p) = proj_name p
   \<and> pd_score (enhanceProjectData random p) = score p
   \<and> pd_change (enhanceProjectData random p) = change p"
  by (simp add: enhanceProjectData_def Let_def)

lemma generateDefaultProject_parts:
  "marketData generateDefaultProject \<noteq> None
   \<and> development generateDefaultProject \<noteq> None
   \<and> community generateDefaultProject \<noteq> None
   \<and> risk generateDefaultProject \<noteq> None
   \<and> pd_id generateDefaultProject = ''default''
   \<and> pd_name generateDefaultProject = ''Solana Project''"
  by (simp add: generateDefaultProject_def)

lemma loadProjectDetail_fallback:
  assumes "find (\<lambda>p. proj_id p = projectId) projects = None"
  shows "loadProjectDetail shuffle random pm vm pst projectId (Inr projects)
     = pst\<lparr>pv_isLoading := False, pv_error := [],
         project := Some (case projects of
                            [] \<Rightarrow> generateDefaultProject | p # _ \<Rightarrow> enhanceProjectData random p),
         relatedProjects := generateRelatedProjects shuffle
                  (case projects of
                     [] \<Rightarrow> generateDefaultProject | p # _ \<Rightarrow> enhanceProjectData random p)\<rparr>"
proof (cases projects)
  case Nil
  then show ?thesis
    using generateDefaultProject_parts by (auto simp: loadProjectDetail_def Let_def)
next
  case (Cons p ps)
  with assms show ?thesis
    using enhanceProjectData_parts [of random p] by (auto simp: loadProjectDetail_def Let_def)
qed

lemma loadSignalDetail_fallback:
  assumes "find (\<lambda>s. sig_id s = signalId) signals = None"
  shows "sv_error (loadSignalDetail generate sst signalId (Inr signals)) = []
    \<and> sv_isLoading (loadSignalDetail generate sst signalId (Inr signals)) = False
    \<and> (signals \<noteq> [] \<longrightarrow>
         signal (loadSignalDetail generate sst signalId (Inr signals)) = Some (hd signals)
         \<and> generated (loadSignalDetail generate sst signalId (Inr signals))
            = Some (generate (asset (hd signals))))
    \<and> (signals = [] \<longrightarrow>
         signal (loadSignalDetail generate sst signalId (Inr signals)) = signal sst
         \<and> generated (loadSignalDetail generate sst signalId (Inr signals)) = generated sst)"
  using assms by (simp add: loadSignalDetail_def Let_def split: list.splits)

lemma getRecentSignals_50: "getRecentSignals now 50 \<noteq> [] \<and> length (getRecentSignals now 50) = 5"
  by (simp add: getRecentSignals_def)

lemma getHotProjects_10: "getHotProjects 10 \<noteq> [] \<and> length (getHotProjects 10) = 5"
  by (simp add: getHotProjects_def)

text \<open>
  C9 as stated fails for the signal view when nothing was fetched: it has no default
  signal, and from its initial state it shows no entity.
\<close>

theorem loadSignalDetail_nothing_fetched:
  "find (\<lambda>s. sig_id s = ''99'') [] = None
   \<and> signal (loadSignalDetail (\<lambda>a. a) initial_signal_view_state ''99'' (Inr [])) = None
   \<and> sv_error (loadSignalDetail (\<lambda>a. a) initial_signal_view_state ''99'' (Inr [])) = []"
  by (simp add: loadSignalDetail_def initial_signal_view_state_def)

text \<open>
  C9, amended. When no fetched entity has the route's id, neither detail view sets an
  error, and both finish loading. The project view shows the first fetched project,
  enhanced (same id, name, score and change), or the generated default project (id
  \<open>default\<close>, name \<open>Solana Project\<close>) when nothing was fetched; the project shown has
  the market, development, community and risk parts the template reads, so the template
  renders it. The signal view shows the first fetched signal with its generated data when
  at least one signal was fetched, and its template renders it; when nothing was fetched
  it leaves the signal as it was, so from its initial state it shows no entity, only its
  "signal does not exist" text.
\<close>

theorem detail_view_fallback:
  assumes "find (\<lambda>p. proj_id p = projectId) projects = None"
    and "find (\<lambda>s. sig_id s = signalId) signals = None"
  shows "pv_error (loadProjectDetail shuffle random pm vm pst projectId (Inr projects)) = []
    \<and> pv_isLoading (loadProjectDetail shuffle random pm vm pst projectId (Inr projects)) = False
    \<and> project (loadProjectDetail shuffle random pm vm pst projectId (Inr projects))
       = Some (case projects of
                 [] \<Rightarrow> generateDefaultProject | p # _ \<Rightarrow> enhanceProjectData random p)
    \<and> project_template_renders
         (loadProjectDetail shuffle random pm vm pst projectId (Inr projects))
    \<and> (\<exists>shown. project (loadProjectDetail shuffle random pm vm pst projectId (Inr projects))
            = Some shown
          \<and> marketData shown \<noteq> None \<and> development shown \<noteq> None
          \<and> community shown \<noteq> None \<and> risk shown \<noteq> None
          \<and> pd_id shown = (case projects of [] \<Rightarrow> ''default'' | p # _ \<Rightarrow> proj_id p)
          \<and> pd_name shown = (case projects of [] \<Rightarrow> ''Solana Project'' | p # _ \<Rightarrow> proj_name p)
          \<and> pd_score shown = (case projects of [] \<Rightarrow> 85 | p # _ \<Rightarrow> score p)
          \<and> pd_change shown = (case projects of [] \<Rightarrow> 5.2 | p # _ \<Rightarrow> change p))
    \<and> sv_error (loadSignalDetail generate sst signalId (Inr signals)) = []
    \<and> sv_isLoading (loadSignalDetail generate sst signalId (Inr signals)) = False
    \<and> (signals \<noteq> [] \<longrightarrow>
         signal (loadSignalDetail generate sst signalId (Inr signals)) = Some (hd signals)
         \<and> generated (loadSignalDetail generate sst signalId (Inr signals))
            = Some (generate (asset (hd signals)))
         \<and> signal_template_renders (loadSignalDetail generate sst signalId (Inr signals)))
    \<and> (signals = [] \<longrightarrow>
         signal (loadSignalDetail generate sst signalId (Inr signals)) = signal sst
         \<and> generated (loadSignalDetail generate sst signalId (Inr signals)) = generated sst)"
proof -
  let ?shown = "case projects of
      [] \<Rightarrow> generateDefaultProject | p # _ \<Rightarrow> enhanceProjectData random p"
  let ?pst = "loadProjectDetail shuffle random pm vm pst projectId (Inr projects)"
  let ?sst = "loadSignalDetail generate sst signalId (Inr signals)"
  note e = loadProjectDetail_fallback [OF assms(1), of shuffle random pm vm pst]
  have p1: "pv_error ?pst = []" and p2: "pv_isLoading ?pst = False"
    and p3: "project ?pst = Some ?shown"
    unfolding e by simp_all
  have parts: "marketData ?shown \<noteq> None \<and> development ?shown \<noteq> None
      \<and> community ?shown \<noteq> None \<and> risk ?shown \<noteq> None
      \<and> pd_id ?shown = (case projects of [] \<Rightarrow> ''default'' | p # _ \<Rightarrow> proj_id p)
      \<and> pd_name ?shown = (case projects of [] \<Rightarrow> ''Solana Project'' | p # _ \<Rightarrow> proj_name p)
      \<and> pd_score ?shown = (case projects of [] \<Rightarrow> 85 | p # _ \<Rightarrow> score p)
      \<and> pd_change ?shown = (case projects of [] \<Rightarrow> 5.2 | p # _ \<Rightarrow> change p)"
  proof (cases projects)
    case Nil
    then show ?thesis by (simp add: generateDefaultProject_def)
  next
    case (Cons p ps)
    then show ?thesis using enhanceProjectData_parts [of random p] by simp
  qed
  have p4: "project_template_renders ?pst"
    using parts by (simp add: project_template_renders_def p1 p2 p3)
  have p5: "\<exists>shown. project ?pst = Some shown
          \<and> marketData shown \<noteq> None \<and> development shown \<noteq> None
          \<and> community shown \<noteq> None \<and> risk shown \<noteq> None
          \<and> pd_id shown = (case projects of [] \<Rightarrow> ''default'' | p # _ \<Rightarrow> proj_id p)
          \<and> pd_name shown = (case projects of [] \<Rightarrow> ''Solana Project'' | p # _ \<Rightarrow> proj_name p)
          \<and> pd_score shown = (case projects of [] \<Rightarrow> 85 | p # _ \<Rightarrow> score p)
          \<and> pd_change shown = (case projects of [] \<Rightarrow> 5.2 | p # _ \<Rightarrow> change p)"
    using p3 parts by blast
  note f = loadSignalDetail_fallback [OF assms(2), of generate sst]
  have s3: "signal_template_renders ?sst" if "signals \<noteq> []"
    using f that by (simp add: signal_template_renders_def)
  from p1 p2 p3 p4 p5 f s3 show ?thesis by blast
qed

theorem detail_view_fallback_witness:
  "find (\<lambda>p. proj_id p = ''99'') (getHotProjects 10) = None
   \<and> find (\<lambda>s. sig_id s = ''99'') (getRecentSignals 7200000 50) = None
   \<and> getRecentSignals 7200000 50 \<noteq> []
   \<and> pv_error (loadProjectDetail id (\<lambda>_. 0) True True initial_project_view_state ''99''
        (Inr (getHotProjects 10))) = []
   \<and> project_template_renders (loadProjectDetail id (\<lambda>_. 0) True True
        initial_project_view_state ''99'' (Inr (getHotProjects 10)))
   \<and> map_option pd_name
        (project (loadProjectDetail id (\<lambda>_. 0) True True initial_project_view_state ''99''
           (Inr (getHotProjects 10))))
       = Some ''Solana''
   \<and> sv_error (loadSignalDetail (\<lambda>a. a) initial_signal_view_state ''99''
        (Inr (getRecentSignals 7200000 50))) = []
   \<and> map_option asset (signal (loadSignalDetail (\<lambda>a. a) initial_signal_view_state ''99''
        (Inr (getRecentSignals 7200000 50)))) = Some ''BTC''"
proof -
  have p: "find (\<lambda>p. proj_id p = ''99'') (getHotProjects 10) = None"
    by (simp add: getHotProjects_def)
  have s: "find (\<lambda>s. sig_id s = ''99'') (getRecentSignals 7200000 50) = None"
    by (simp add: getRecentSignals_def)
  have n: "getRecentSignals 7200000 50 \<noteq> []"
    by (simp add: getRecentSignals_def)
  note th = detail_view_fallback [OF p s, of id "\<lambda>_. 0" True True initial_project_view_state
      "\<lambda>a. a" initial_signal_view_state]
  note a = th [THEN conjunct1]
  note b = th [THEN conjunct2, THEN conjunct2, THEN conjunct1]
  note r = th [THEN conjunct2, THEN conjunct2, THEN conjunct2, THEN conjunct1]
  note c = th [THEN conjunct2, THEN conjunct2, THEN conjunct2, THEN conjunct2, THEN conjunct2,
      THEN conjunct1]
  note d = th [THEN conjunct2, THEN conjunct2, THEN conjunct2, THEN conjunct2, THEN conjunct2,
      THEN conjunct2, THEN conjunct2, THEN conjunct1, THEN mp, OF n, THEN conjunct1]
  have b': "map_option pd_name
        (project (loadProjectDetail id (\<lambda>_. 0) True True initial_project_view_state ''99''
           (Inr (getHotProjects 10))))
       = Some ''Solana''"
    unfolding b by (simp add: getHotProjects_def enhanceProjectData_def Let_def)
  have d': "map_option asset (signal (loadSignalDetail (\<lambda>a. a) initial_signal_view_state ''99''
        (Inr (getRecentSignals 7200000 50)))) = Some ''BTC''"
    unfolding d by (simp add: getRecentSignals_def)
  show ?thesis
    by (intro conjI) (rule p s n a r b' c d')+
qed

section \<open>Drawing a chart\<close>

lemma isTick_tickElem: "isTick (tickElem l)"
  by (simp add: isTick_def tickElem_def)

lemma removeTicks_ticks:
  "removeTicks k i (map tickElem ls)
     = map tickElem (map fst (filter (\<lambda>p. snd p mod k = 0) (zip ls [i..<i + length ls])))"
proof (induction ls arbitrary: i)
  case Nil
  show ?case by simp
next
  case (Cons l ls)
  have "i < i + length (l # ls)" by simp
  from upt_conv_Cons [OF this]
  have u: "[i..<i + length (l # ls)] = i # [Suc i..<Suc i + length ls]" by simp
  show ?case unfolding u using Cons [of "Suc i"] by (simp add: isTick_tickElem)
qed

lemma removeTicks_axis:
  "removeTicks k 0 (axis ls) = axis (nths ls {i. i mod k = 0})"
  using removeTicks_ticks [of k 0 ls]
  by (simp add: axis_def isTick_def nths_def)

lemma tickTexts_axis: "tickTexts (axis ls) = ls"
  by (induction ls) (simp_all add: tickTexts_def axis_def isTick_def tickElem_def)

lemma bandDomain_fold:
  "distinct (acc @ vs) \<Longrightarrow>
   fold (\<lambda>v domain. if v \<in> set domain then domain else domain @ [v]) vs acc = acc @ vs"
  by (induction vs arbitrary: acc) auto

lemma bandDomain_distinct: "distinct vs \<Longrightarrow> bandDomain vs = vs"
  using bandDomain_fold [of "[]" vs] by (simp add: bandDomain_def)

lemma xAxisLabels_initVolumeChart:
  "trendData \<noteq> [] \<Longrightarrow>
   xAxisLabels (initVolumeChart lib (Some c) trendData)
     = tickTexts (thinTicks (length trendData) (axis (bandDomain (map nt_date trendData))))"
  by (simp add: initVolumeChart_def xAxisLabels_def Let_def)

lemma xAxisLabels_initFloorPriceChart:
  "trendData \<noteq> [] \<Longrightarrow>
   xAxisLabels (initFloorPriceChart lib (Some c) trendData)
     = tickTexts (thinTicks (length trendData) (axis (bandDomain (map nt_date trendData))))"
  by (simp add: initFloorPriceChart_def xAxisLabels_def Let_def)

lemma thinTicks_labels:
  "tickTexts (thinTicks n (axis ls))
     = (if n > 30 then nths ls {i. i mod 3 = 0} else if n > 14 then nths ls {i. i mod 2 = 0} else ls)"
  by (simp add: thinTicks_def removeTicks_axis tickTexts_axis)

lemma initVolumeChart_clears:
  "trendData \<noteq> [] \<Longrightarrow>
   initVolumeChart lib (Some c) trendData
     = initVolumeChart lib (Some (c\<lparr>childNodes := []\<rparr>)) trendData"
  by (simp add: initVolumeChart_def Let_def)

lemma initFloorPriceChart_clears:
  "trendData \<noteq> [] \<Longrightarrow>
   initFloorPriceChart lib (Some c) trendData
     = initFloorPriceChart lib (Some (c\<lparr>childNodes := []\<rparr>)) trendData"
  by (simp add: initFloorPriceChart_def Let_def)

lemma initSignalTrendChart_clears:
  "initSignalTrendChart lib (Some c) data
     = initSignalTrendChart lib (Some (c\<lparr>childNodes := []\<rparr>)) data"
  by (simp add: initSignalTrendChart_def Let_def)

lemma initVolumeChart_one_svg:
  "trendData \<noteq> [] \<Longrightarrow>
   \<exists>ks. map_option childNodes (initVolumeChart lib (Some c) trendData)
     = Some [Elem ''svg'' [] [] ks]
     \<and> length (filter (\<lambda>e. el_class e = ''bar'') ks) = length trendData"
  by (simp add: initVolumeChart_def Let_def)

lemma initFloorPriceChart_one_svg:
  "trendData \<noteq> [] \<Longrightarrow>
   \<exists>ks. map_option childNodes (initFloorPriceChart lib (Some c) trendData)
     = Some [Elem ''svg'' [] [] ks]
     \<and> length (filter (\<lambda>e. el_class e = ''dot'') ks) = length trendData"
  by (simp add: initFloorPriceChart_def Let_def)

lemma initSignalTrendChart_one_svg:
  "\<exists>ks. map_option childNodes (initSignalTrendChart lib (Some c) data)
     = Some [Elem ''svg'' [] [] [Elem ''g'' [] [] ks]]
     \<and> length (filter (\<lambda>e. el_class e = ''bar'') ks) = length data"
  by (simp add: initSignalTrendChart_def Let_def)

lemma initVolumeChart_empty: "initVolumeChart lib r [] = r"
  by (cases r) (simp_all add: initVolumeChart_def)

lemma initFloorPriceChart_empty: "initFloorPriceChart lib r [] = r"
  by (cases r) (simp_all add: initFloorPriceChart_def)

lemma initVolumeChart_idem:
  "initVolumeChart lib (initVolumeChart lib r trendData) trendData = initVolumeChart lib r trendData"
  by (cases r) (simp_all add: initVolumeChart_def Let_def)

lemma initFloorPriceChart_idem:
  "initFloorPriceChart lib (initFloorPriceChart lib r trendData) trendData
     = initFloorPriceChart lib r trendData"
  by (cases r) (simp_all add: initFloorPriceChart_def Let_def)

lemma initSignalTrendChart_idem:
  "initSignalTrendChart lib (initSignalTrendChart lib r data) data = initSignalTrendChart lib r data"
  by (cases r) (simp_all add: initSignalTrendChart_def Let_def)

text \<open>
  C6 as stated fails for an empty series in the NFT view: \<open>initVolumeChart\<close> returns
  before it clears the container, so what an earlier draw left there stays.
\<close>

theorem initVolumeChart_empty_keeps_old:
  "initVolumeChart sample_lib
     (Some \<lparr>clientWidth = 800, childNodes = [Elem ''svg'' ''old'' [] []]\<rparr>) []
   = Some \<lparr>clientWidth = 800, childNodes = [Elem ''svg'' ''old'' [] []]\<rparr>"
  by (simp add: initVolumeChart_def)

text \<open>
  C6, amended. For a series that is not empty, \<open>initVolumeChart\<close> and
  \<open>initFloorPriceChart\<close> leave in the container what they would leave in an emptied
  one: a single svg with one bar, or one dot, per point, and nothing of an earlier draw.
  \<open>initSignalTrendChart\<close> does so for every series. For an empty series
  \<open>initVolumeChart\<close> and \<open>initFloorPriceChart\<close> leave the container as it is. For
  every series, empty or not, drawing it a second time gives the same container as
  drawing it once, with the same number of elements.
\<close>

theorem chart_render_clears_and_repeats:
  assumes "trendData \<noteq> []"
  shows "initVolumeChart lib (Some c) trendData
       = initVolumeChart lib (Some (c\<lparr>childNodes := []\<rparr>)) trendData
    \<and> initFloorPriceChart lib (Some c) trendData
       = initFloorPriceChart lib (Some (c\<lparr>childNodes := []\<rparr>)) trendData
    \<and> initSignalTrendChart lib (Some c) data
       = initSignalTrendChart lib (Some (c\<lparr>childNodes := []\<rparr>)) data
    \<and> (\<exists>ks. map_option childNodes (initVolumeChart lib (Some c) trendData)
            = Some [Elem ''svg'' [] [] ks]
          \<and> length (filter (\<lambda>e. el_class e = ''bar'') ks) = length trendData)
    \<and> (\<exists>ks. map_option childNodes (initFloorPriceChart lib (Some c) trendData)
            = Some [Elem ''svg'' [] [] ks]
          \<and> length (filter (\<lambda>e. el_class e = ''dot'') ks) = length trendData)
    \<and> (\<exists>ks. map_option childNodes (initSignalTrendChart lib (Some c) data)
            = Some [Elem ''svg'' [] [] [Elem ''g'' [] [] ks]]
          \<and> length (filter (\<lambda>e. el_class e = ''bar'') ks) = length data)
    \<and> initVolumeChart lib r [] = r
    \<and> initFloorPriceChart lib r [] = r
    \<and> initVolumeChart lib (initVolumeChart lib r series) series = initVolumeChart lib r series
    \<and> initFloorPriceChart lib (initFloorPriceChart lib r series) series
       = initFloorPriceChart lib r series
    \<and> initSignalTrendChart lib (initSignalTrendChart lib r data) data
       = initSignalTrendChart lib r data
    \<and> primitives (initVolumeChart lib (initVolumeChart lib r series) series)
       = primitives (initVolumeChart lib r series)
    \<and> primitives (initFloorPriceChart lib (initFloorPriceChart lib r series) series)
       = primitives (initFloorPriceChart lib r series)
    \<and> primitives (initSignalTrendChart lib (initSignalTrendChart lib r data) data)
       = primitives (initSignalTrendChart lib r data)"
  using initVolumeChart_clears [OF assms, of lib c] initFloorPriceChart_clears [OF assms, of lib c]
    initSignalTrendChart_clears [of lib c data]
    initVolumeChart_one_svg [OF assms, of lib c] initFloorPriceChart_one_svg [OF assms, of lib c]
    initSignalTrendChart_one_svg [of lib c data]
  by (simp only: initVolumeChart_idem initFloorPriceChart_idem initSignalTrendChart_idem
      initVolumeChart_empty initFloorPriceChart_empty simp_thms)

theorem chart_render_clears_and_repeats_witness:
  "sample_trend 3 \<noteq> []
   \<and> initVolumeChart sample_lib
        (Some \<lparr>clientWidth = 800, childNodes = [Elem ''svg'' ''old'' [] []]\<rparr>) (sample_trend 3)
      = initVolumeChart sample_lib
        (Some (\<lparr>clientWidth = 800, childNodes = [Elem ''svg'' ''old'' [] []]\<rparr>
           \<lparr>childNodes := []\<rparr>)) (sample_trend 3)
   \<and> primitives (initVolumeChart sample_lib
        (Some \<lparr>clientWidth = 800, childNodes = [Elem ''svg'' ''old'' [] []]\<rparr>) (sample_trend 3))
      = 23"
proof -
  have n: "sample_trend 3 \<noteq> []" by code_simp
  note th = chart_render_clears_and_repeats [OF n, of sample_lib
      "\<lparr>clientWidth = 800, childNodes = [Elem ''svg'' ''old'' [] []]\<rparr>"]
  note a = th [THEN conjunct1]
  have b: "primitives (initVolumeChart sample_lib
        (Some \<lparr>clientWidth = 800, childNodes = [Elem ''svg'' ''old'' [] []]\<rparr>) (sample_trend 3))
      = 23"
    by code_simp
  show ?thesis
    by (intro conjI) (rule n a b)+
qed

text \<open>
  C7. For a series that is drawn (not empty), the tick labels left on the horizontal
  axis of \<open>initVolumeChart\<close> and of \<open>initFloorPriceChart\<close> are: all labels of the
  band scale when the series has at most 14 points; the labels at positions 0, 2, 4, ...
  when it has more than 14 and at most 30 points; the labels at positions 0, 3, 6, ...
  when it has more than 30 points. The labels of the band scale are the dates of the
  series when no date occurs twice.
\<close>

theorem tick_labels_thinned:
  assumes "trendData \<noteq> []"
  shows "(length trendData \<le> 14 \<longrightarrow>
          xAxisLabels (initVolumeChart lib (Some c) trendData)
            = bandDomain (map nt_date trendData))
    \<and> (14 < length trendData \<and> length trendData \<le> 30 \<longrightarrow>
          xAxisLabels (initVolumeChart lib (Some c) trendData)
            = nths (bandDomain (map nt_date trendData)) {i. i mod 2 = 0})
    \<and> (30 < length trendData \<longrightarrow>
          xAxisLabels (initVolumeChart lib (Some c) trendData)
            = nths (bandDomain (map nt_date trendData)) {i. i mod 3 = 0})
    \<and> (length trendData \<le> 14 \<longrightarrow>
          xAxisLabels (initFloorPriceChart lib (Some c) trendData)
            = bandDomain (map nt_date trendData))
    \<and> (14 < length trendData \<and> length trendData \<le> 30 \<longrightarrow>
          xAxisLabels (initFloorPriceChart lib (Some c) trendData)
            = nths (bandDomain (map nt_date trendData)) {i. i mod 2 = 0})
    \<and> (30 < length trendData \<longrightarrow>
          xAxisLabels (initFloorPriceChart lib (Some c) trendData)
            = nths (bandDomain (map nt_date trendData)) {i. i mod 3 = 0})
    \<and> (distinct (map nt_date trendData) \<longrightarrow>
          bandDomain (map nt_date trendData) = map nt_date trendData)"
  by (simp add: xAxisLabels_initVolumeChart [OF assms] xAxisLabels_initFloorPriceChart [OF assms]
      thinTicks_labels bandDomain_distinct)

theorem tick_labels_thinned_witness:
  "sample_trend 16 \<noteq> []
   \<and> (14::nat) < length (sample_trend 16) \<and> length (sample_trend 16) \<le> 30
   \<and> xAxisLabels (initVolumeChart sample_lib (Some \<lparr>clientWidth = 800, childNodes = []\<rparr>)
        (sample_trend 16))
      = nths (bandDomain (map nt_date (sample_trend 16))) {i. i mod 2 = 0}
   \<and> xAxisLabels (initVolumeChart sample_lib (Some \<lparr>clientWidth = 800, childNodes = []\<rparr>)
        (sample_trend 16))
      = [''0'', ''2'', ''4'', ''6'', ''8'', ''10'', ''12'', ''14'']"
proof -
  have n: "sample_trend 16 \<noteq> []" by code_simp
  have l: "(14::nat) < length (sample_trend 16) \<and> length (sample_trend 16) \<le> 30"
    by (simp add: sample_trend_def)
  note th = tick_labels_thinned [OF n, of sample_lib "\<lparr>clientWidth = 800, childNodes = []\<rparr>"]
  note a = th [THEN conjunct2, THEN conjunct1, THEN mp, OF l]
  have b: "xAxisLabels (initVolumeChart sample_lib (Some \<lparr>clientWidth = 800, childNodes = []\<rparr>)
        (sample_trend 16))
      = [''0'', ''2'', ''4'', ''6'', ''8'', ''10'', ''12'', ''14'']"
    by code_simp
  show ?thesis
    by (intro conjI) (rule n l [THEN conjunct1] l [THEN conjunct2] a b)+
qed

end
